theory Spec2Isabelle
  imports Main "HOL-Library.List_Lexorder"
begin

section \<open>JavaScript strings\<close>

text \<open>
  A JavaScript string is a sequence of UTF-16 code units. The source holds literals with
  code units above 255 (the markers put in front of detected tasks), so a code unit is an
  integer (from 0 to 65535) and ASCII literals are written \<open>u ''abc''\<close>.
\<close>

type_synonym jschar = int
type_synonym jsstring = "int list"

definition u :: "string \<Rightarrow> jsstring" where
  "u s = map of_char s"

text \<open>\<open>\s\<close> and \<open>trim\<close>: the white space and line terminator code points of ECMAScript.\<close>

definition isSpace :: "jschar \<Rightarrow> bool" where
  "isSpace c = (c = 9 \<or> c = 10 \<or> c = 11 \<or> c = 12 \<or> c = 13 \<or> c = 32 \<or> c = 160
     \<or> c = 5760 \<or> (8192 \<le> c \<and> c \<le> 8202) \<or> c = 8232 \<or> c = 8233 \<or> c = 8239
     \<or> c = 8287 \<or> c = 12288 \<or> c = 65279)"

text \<open>\<open>.\<close> without the \<open>s\<close> flag: any code unit but a line terminator.\<close>

definition isDot :: "jschar \<Rightarrow> bool" where
  "isDot c = (\<not> (c = 10 \<or> c = 13 \<or> c = 8232 \<or> c = 8233))"

definition isDigit :: "jschar \<Rightarrow> bool" where
  "isDigit c = (48 \<le> c \<and> c \<le> 57)"

definition isAlpha :: "jschar \<Rightarrow> bool" where
  "isAlpha c = ((65 \<le> c \<and> c \<le> 90) \<or> (97 \<le> c \<and> c \<le> 122))"

text \<open>\<open>\w\<close>, which decides where \<open>\b\<close> holds.\<close>

definition isWordChar :: "jschar \<Rightarrow> bool" where
  "isWordChar c = (isAlpha c \<or> isDigit c \<or> c = 95)"

text \<open>
  \<open>toLowerCase\<close>. It is exact on the code units below 256 (A to Z, and the Latin-1
  capitals but the multiplication sign) and on the two code units above 255 whose lower
  case holds an ASCII letter: the Kelvin sign (8490) becomes k, and the capital I with a dot
  (304) becomes i followed by the combining dot (775). Any other code unit above 255 is
  left as it is; its lower case is never an ASCII letter, so what the code tests on a
  lower-cased text against its ASCII literals is the same.
\<close>

definition lowerChar :: "jschar \<Rightarrow> jschar" where
  "lowerChar c =
     (if (65 \<le> c \<and> c \<le> 90) \<or> (192 \<le> c \<and> c \<le> 222 \<and> c \<noteq> 215) then c + 32
      else if c = 8490 then 107
      else c)"

definition toLowerCase :: "jsstring \<Rightarrow> jsstring" where
  "toLowerCase s = concat (map (\<lambda>c. if c = 304 then [105, 775] else [lowerChar c]) s)"

fun startsWith :: "jsstring \<Rightarrow> jsstring \<Rightarrow> bool" where
  "startsWith s [] = True"
| "startsWith [] (p # ps) = False"
| "startsWith (c # cs) (p # ps) = (c = p \<and> startsWith cs ps)"

text \<open>\<open>s.includes(p)\<close>.\<close>

fun includes_str :: "jsstring \<Rightarrow> jsstring \<Rightarrow> bool" where
  "includes_str [] p = (p = [])"
| "includes_str (c # cs) p = (startsWith (c # cs) p \<or> includes_str cs p)"

definition trim :: "jsstring \<Rightarrow> jsstring" where
  "trim s = rev (dropWhile isSpace (rev (dropWhile isSpace s)))"

text \<open>\<open>xs.join(sep)\<close>.\<close>

fun join :: "jsstring \<Rightarrow> jsstring list \<Rightarrow> jsstring" where
  "join sep [] = []"
| "join sep [x] = x"
| "join sep (x # y # ys) = x @ sep @ join sep (y # ys)"

section \<open>Regular expressions\<close>

text \<open>
  The source parses with regular expressions. They are embedded as syntax trees, matched by
  a backtracking matcher that returns the matches from one position in the order in which
  the ECMAScript matcher tries them: the head of the list is the match JavaScript finds.
  A matcher state is the text already passed (reversed, nearest first; \<open>\b\<close> and \<open>^\<close> look
  at it), the text still ahead, and the capture groups closed so far.
\<close>

record mstate =
  seen :: jsstring
  rest :: jsstring
  caps :: "(nat \<times> jsstring) list"

datatype re =
    Cls "jschar \<Rightarrow> bool"
  | Eps
  | Seq re re
  | Alt re re
  | Star bool re
  | Grp nat re
  | Bol
  | Eol
  | WordB
  | Ahead re

text \<open>
  \<open>Cls p\<close> is one code unit of a class; \<open>Star True r\<close> is the greedy \<open>r*\<close> and
  \<open>Star False r\<close> the lazy \<open>r*?\<close>; \<open>Grp n r\<close> is the capture group number \<open>n\<close>;
  \<open>Bol\<close> and \<open>Eol\<close> are \<open>^\<close> and \<open>$\<close> without the \<open>m\<close> flag; \<open>WordB\<close> is \<open>\b\<close>;
  \<open>Ahead r\<close> is the lookahead \<open>(?=r)\<close>.
\<close>

definition wordBefore :: "mstate \<Rightarrow> bool" where
  "wordBefore st = (case seen st of [] \<Rightarrow> False | c # _ \<Rightarrow> isWordChar c)"

definition wordAfter :: "mstate \<Rightarrow> bool" where
  "wordAfter st = (case rest st of [] \<Rightarrow> False | c # _ \<Rightarrow> isWordChar c)"

text \<open>The text between two states of one match.\<close>

definition matched :: "mstate \<Rightarrow> mstate \<Rightarrow> jsstring" where
  "matched st0 st1 = take (length (rest st0) - length (rest st1)) (rest st0)"

definition capture :: "nat \<Rightarrow> mstate \<Rightarrow> mstate \<Rightarrow> mstate" where
  "capture n st0 st1 = st1\<lparr>caps := (n, matched st0 st1) # caps st1\<rparr>"

definition advance :: "mstate \<Rightarrow> mstate" where
  "advance st =
     (case rest st of [] \<Rightarrow> st | c # cs \<Rightarrow> st\<lparr>seen := c # seen st, rest := cs\<rparr>)"

text \<open>
  An iteration of a star that passes no text is dropped, as the ECMAScript matcher does;
  the recursion then ends because the text ahead gets shorter.
\<close>

function (sequential) rm :: "re \<Rightarrow> mstate \<Rightarrow> mstate list" where
  "rm (Cls p) st =
     (case rest st of
        [] \<Rightarrow> []
      | c # cs \<Rightarrow> if p c then [st\<lparr>seen := c # seen st, rest := cs\<rparr>] else [])"
| "rm Eps st = [st]"
| "rm (Seq a b) st = concat (map (rm b) (rm a st))"
| "rm (Alt a b) st = rm a st @ rm b st"
| "rm (Star greedy a) st =
     (let more = concat (map (rm (Star greedy a))
                   (filter (\<lambda>st'. length (rest st') < length (rest st)) (rm a st)))
      in if greedy then more @ [st] else st # more)"
| "rm (Grp n a) st = map (capture n st) (rm a st)"
| "rm Bol st = (if seen st = [] then [st] else [])"
| "rm Eol st = (if rest st = [] then [st] else [])"
| "rm WordB st = (if wordBefore st \<noteq> wordAfter st then [st] else [])"
| "rm (Ahead a) st = (case rm a st of [] \<Rightarrow> [] | st' # _ \<Rightarrow> [st\<lparr>caps := caps st'\<rparr>])"
  by pat_completeness auto
termination
  by (relation "measures [\<lambda>(r, st). size r, \<lambda>(r, st). length (rest st)]") auto

definition start :: "jsstring \<Rightarrow> mstate" where
  "start s = \<lparr>seen = [], rest = s, caps = []\<rparr>"

text \<open>\<open>m[n]\<close>: the text of group \<open>n\<close>, or undefined.\<close>

definition group :: "nat \<Rightarrow> mstate \<Rightarrow> jsstring option" where
  "group n m = map_of (caps m) n"

text \<open>
  \<open>regex.exec(s)\<close> from a state on and \<open>s.match(regex)\<close> without the \<open>g\<close> flag: the first
  position from which the expression matches, with the state where the match starts and
  the state where it ends.
\<close>

function search :: "re \<Rightarrow> mstate \<Rightarrow> (mstate \<times> mstate) option" where
  "search r st =
     (case rm r st of
        m # _ \<Rightarrow> Some (st, m)
      | [] \<Rightarrow> (case rest st of [] \<Rightarrow> None | c # cs \<Rightarrow> search r (advance st)))"
  by pat_completeness auto
termination
  by (relation "measure (\<lambda>(r, st). length (rest st))") (auto simp: advance_def)

definition match_re :: "re \<Rightarrow> jsstring \<Rightarrow> mstate option" where
  "match_re r s = map_option snd (search r (start s))"

text \<open>
  \<open>while ((match = regex.exec(s)) !== null) ...\<close> with the \<open>g\<close> flag: each search starts
  where the last match ended. \<open>exec\<close> does not step over an empty match, so a match that
  passes no text would be found again for ever: the loop then does not return, \<open>None\<close>.
  Of each match the state where it starts and the state where it ends are kept.
\<close>

function execAll :: "re \<Rightarrow> mstate \<Rightarrow> (mstate \<times> mstate) list option" where
  "execAll r st =
     (case search r st of
        None \<Rightarrow> Some []
      | Some (st0, m) \<Rightarrow>
          if length (rest m) < length (rest st)
          then map_option (Cons (st0, m)) (execAll r (m\<lparr>caps := []\<rparr>))
          else None)"
  by pat_completeness auto
termination
  by (relation "measure (\<lambda>(r, st). length (rest st))") auto

text \<open>
  \<open>s.match(regex)\<close> with the \<open>g\<close> flag: the texts of all matches, or null when there is
  none; here an empty match is stepped over by one code unit.
\<close>

function matchAllFrom :: "re \<Rightarrow> mstate \<Rightarrow> jsstring list" where
  "matchAllFrom r st =
     (case search r st of
        None \<Rightarrow> []
      | Some (st0, m) \<Rightarrow>
          (let next = (if length (rest m) < length (rest st0) then m else advance m)
           in if length (rest next) < length (rest st)
              then matched st0 m # matchAllFrom r (next\<lparr>caps := []\<rparr>)
              else [matched st0 m]))"
  by pat_completeness auto
termination
  by (relation "measure (\<lambda>(r, st). length (rest st))") auto

definition matchAll :: "re \<Rightarrow> jsstring \<Rightarrow> jsstring list option" where
  "matchAll r s = (case matchAllFrom r (start s) of [] \<Rightarrow> None | ms \<Rightarrow> Some ms)"

text \<open>
  \<open>s.split(regex)\<close> for an expression without capture groups: the pieces between the
  matches; a match of no text at the place where the last piece ended is passed over.
\<close>

function splitLoop :: "re \<Rightarrow> mstate \<Rightarrow> jsstring \<Rightarrow> jsstring list" where
  "splitLoop r st piece =
     (case rest st of
        [] \<Rightarrow> [rev piece]
      | c # cs \<Rightarrow>
          (case rm r st of
             [] \<Rightarrow> splitLoop r (advance st) (c # piece)
           | m # _ \<Rightarrow>
               if length (rest st) \<le> length (rest m) \<and> piece = []
               then splitLoop r (advance st) (c # piece)
               else if length (rest m) \<le> length (rest st)
               then rev piece # splitLoop r (m\<lparr>caps := []\<rparr>) []
               else [rev piece]))"
  by pat_completeness auto
termination
  by (relation "measures [\<lambda>(r, st, p). length (rest st), \<lambda>(r, st, p). length p]")
     (auto simp: advance_def)

definition split_re :: "re \<Rightarrow> jsstring \<Rightarrow> jsstring list" where
  "split_re r s =
     (if s = [] then (if rm r (start s) = [] then [s] else []) else splitLoop r (start s) [])"

text \<open>Building blocks: literals, with and without the \<open>i\<close> flag, and the quantifiers.\<close>

definition lit :: "string \<Rightarrow> re" where
  "lit s = foldr (\<lambda>c r. Seq (Cls (\<lambda>x. x = of_char c)) r) s Eps"

text \<open>
  Under the \<open>i\<close> flag an ASCII letter of the pattern matches its two ASCII cases only: the
  canonicalisation of ECMAScript never maps a code unit above 127 to one below 128.
\<close>

definition liti :: "string \<Rightarrow> re" where
  "liti s = foldr (\<lambda>c r. Seq (Cls (\<lambda>x. x < 128 \<and> lowerChar x = lowerChar (of_char c))) r) s Eps"

fun alts :: "re list \<Rightarrow> re" where
  "alts [] = Eps"
| "alts [r] = r"
| "alts (r # rs) = Alt r (alts rs)"

fun seqs :: "re list \<Rightarrow> re" where
  "seqs [] = Eps"
| "seqs [r] = r"
| "seqs (r # rs) = Seq r (seqs rs)"

definition opt :: "re \<Rightarrow> re" where
  "opt r = Alt r Eps"

definition plus_re :: "re \<Rightarrow> re" where
  "plus_re r = Seq r (Star True r)"

primrec times_re :: "nat \<Rightarrow> re \<Rightarrow> re" where
  "times_re 0 r = Eps"
| "times_re (Suc n) r = Seq r (times_re n r)"

primrec upto_re :: "nat \<Rightarrow> re \<Rightarrow> re" where
  "upto_re 0 r = Eps"
| "upto_re (Suc n) r = opt (Seq r (upto_re n r))"

text \<open>\<open>r{m,n}\<close>, greedy: \<open>m\<close> times \<open>r\<close>, then up to \<open>n - m\<close> more.\<close>

definition rep :: "nat \<Rightarrow> nat \<Rightarrow> re \<Rightarrow> re" where
  "rep m n r = Seq (times_re m r) (upto_re (n - m) r)"

section \<open>Dates\<close>

text \<open>
  A \<open>Date\<close> is its time value read in local time: the milliseconds since the local midnight
  of 1 January 1970, the offset of the time zone being taken as fixed. The day and calendar
  functions are those of the ECMAScript specification; a month is numbered from 0.
\<close>

type_synonym jsdate = int

definition msPerDay :: int where
  "msPerDay = 86400000"

definition Day :: "jsdate \<Rightarrow> int" where
  "Day t = t div msPerDay"

definition TimeWithinDay :: "jsdate \<Rightarrow> int" where
  "TimeWithinDay t = t mod msPerDay"

definition DayFromYear :: "int \<Rightarrow> int" where
  "DayFromYear y = 365 * (y - 1970) + (y - 1969) div 4 - (y - 1901) div 100 + (y - 1601) div 400"

definition InLeapYear :: "int \<Rightarrow> bool" where
  "InLeapYear y = (y mod 4 = 0 \<and> (y mod 400 = 0 \<or> y mod 100 \<noteq> 0))"

text \<open>The year whose first day is the last one not after the day of \<open>t\<close>.\<close>

definition YearFromTime :: "jsdate \<Rightarrow> int" where
  "YearFromTime t =
     (let d = Day t; y = 1970 + (d * 400) div 146097
      in if DayFromYear (y + 1) \<le> d then y + 1 else if DayFromYear y \<le> d then y else y - 1)"

definition daysBeforeMonth :: "bool \<Rightarrow> int \<Rightarrow> int" where
  "daysBeforeMonth leap m =
     [0, 31, 59, 90, 120, 151, 181, 212, 243, 273, 304, 334] ! nat m
       + (if leap \<and> 2 \<le> m then 1 else 0)"

definition DayWithinYear :: "jsdate \<Rightarrow> int" where
  "DayWithinYear t = Day t - DayFromYear (YearFromTime t)"

definition MonthFromTime :: "jsdate \<Rightarrow> int" where
  "MonthFromTime t =
     int (length (filter (\<lambda>m. daysBeforeMonth (InLeapYear (YearFromTime t)) m \<le> DayWithinYear t)
        [1, 2, 3, 4, 5, 6, 7, 8, 9, 10, 11]))"

definition DateFromTime :: "jsdate \<Rightarrow> int" where
  "DateFromTime t =
     DayWithinYear t - daysBeforeMonth (InLeapYear (YearFromTime t)) (MonthFromTime t) + 1"

definition WeekDay :: "jsdate \<Rightarrow> int" where
  "WeekDay t = (Day t + 4) mod 7"

text \<open>
  \<open>MakeDay\<close>: the day number of the given date of the given month; a month outside 0 to 11
  and a date outside the month carry over.
\<close>

definition MakeDay :: "int \<Rightarrow> int \<Rightarrow> int \<Rightarrow> int" where
  "MakeDay year month dt =
     (let ym = year + month div 12; mn = month mod 12
      in DayFromYear ym + daysBeforeMonth (InLeapYear ym) mn + dt - 1)"

definition MakeDate :: "int \<Rightarrow> int \<Rightarrow> jsdate" where
  "MakeDate day time = day * msPerDay + time"

definition getFullYear :: "jsdate \<Rightarrow> int" where
  "getFullYear t = YearFromTime t"

definition getMonth :: "jsdate \<Rightarrow> int" where
  "getMonth t = MonthFromTime t"

definition getDate :: "jsdate \<Rightarrow> int" where
  "getDate t = DateFromTime t"

definition getDay :: "jsdate \<Rightarrow> int" where
  "getDay t = WeekDay t"

definition setDate :: "jsdate \<Rightarrow> int \<Rightarrow> jsdate" where
  "setDate t dt = MakeDate (MakeDay (YearFromTime t) (MonthFromTime t) dt) (TimeWithinDay t)"

definition setMonth :: "jsdate \<Rightarrow> int \<Rightarrow> jsdate" where
  "setMonth t m = MakeDate (MakeDay (YearFromTime t) m (DateFromTime t)) (TimeWithinDay t)"

text \<open>\<open>new Date(year, month, day)\<close>: local midnight; a year from 0 to 99 counts from 1900.\<close>

definition newDate :: "int \<Rightarrow> int \<Rightarrow> int \<Rightarrow> jsdate" where
  "newDate year month day =
     MakeDate (MakeDay (if 0 \<le> year \<and> year \<le> 99 then 1900 + year else year) month day) 0"

section \<open>Parsing a date out of a text\<close>

definition months :: "(jsstring \<times> int) list" where
  "months =
     [(u ''jan'', 0), (u ''january'', 0), (u ''feb'', 1), (u ''february'', 1), (u ''mar'', 2),
      (u ''march'', 2), (u ''apr'', 3), (u ''april'', 3), (u ''may'', 4), (u ''jun'', 5),
      (u ''june'', 5), (u ''jul'', 6), (u ''july'', 6), (u ''aug'', 7), (u ''august'', 7),
      (u ''sep'', 8), (u ''sept'', 8), (u ''september'', 8), (u ''oct'', 9), (u ''october'', 9),
      (u ''nov'', 10), (u ''november'', 10), (u ''dec'', 11), (u ''december'', 11)]"

definition dayNames :: "jsstring list" where
  "dayNames = [u ''sunday'', u ''monday'', u ''tuesday'', u ''wednesday'', u ''thursday'',
     u ''friday'', u ''saturday'']"

text \<open>
  The loop over \<open>dayNames\<close>, from index \<open>i\<close> on: the first name the text includes decides.
\<close>

fun dayNameLoop :: "jsstring \<Rightarrow> jsdate \<Rightarrow> jsstring list \<Rightarrow> int \<Rightarrow> jsdate option" where
  "dayNameLoop lower now [] i = None"
| "dayNameLoop lower now (name # names) i =
     (if includes_str lower name
      then (let d = now;
                currentDay = getDay d;
                daysUntil = i - currentDay;
                daysUntil = (if daysUntil \<le> 0 then daysUntil + 7 else daysUntil)
            in Some (setDate d (getDate d + daysUntil)))
      else dayNameLoop lower now names (i + 1))"

text \<open>
  \<open>jan(?:uary)?|feb(?:ruary)?|mar(?:ch)?|apr(?:il)?|may|jun(?:e)?|jul(?:y)?|aug(?:ust)?|\<close>
  \<open>sep(?:t)?(?:ember)?|oct(?:ober)?|nov(?:ember)?|dec(?:ember)?\<close>, under the \<open>i\<close> flag.
\<close>

definition monthName :: re where
  "monthName = alts
     [Seq (liti ''jan'') (opt (liti ''uary'')), Seq (liti ''feb'') (opt (liti ''ruary'')),
      Seq (liti ''mar'') (opt (liti ''ch'')), Seq (liti ''apr'') (opt (liti ''il'')),
      liti ''may'', Seq (liti ''jun'') (opt (liti ''e'')), Seq (liti ''jul'') (opt (liti ''y'')),
      Seq (liti ''aug'') (opt (liti ''ust'')),
      Seq (liti ''sep'') (Seq (opt (liti ''t'')) (opt (liti ''ember''))),
      Seq (liti ''oct'') (opt (liti ''ober'')), Seq (liti ''nov'') (opt (liti ''ember'')),
      Seq (liti ''dec'') (opt (liti ''ember''))]"

text \<open>\<open>(?:st|nd|rd|th)\<close>, under the \<open>i\<close> flag.\<close>

definition ordinal :: re where
  "ordinal = alts [liti ''st'', liti ''nd'', liti ''rd'', liti ''th'']"

text \<open>\<open>/\b(monthName)\s*(\d{1,2})(?:st|nd|rd|th)?\b/i\<close>\<close>

definition monthDayRegex :: re where
  "monthDayRegex = seqs [WordB, Grp 1 monthName, Star True (Cls isSpace),
     Grp 2 (rep 1 2 (Cls isDigit)), opt ordinal, WordB]"

text \<open>\<open>/\b(\d{1,2})(?:st|nd|rd|th)?\s*(monthName)\b/i\<close>\<close>

definition dayMonthRegex :: re where
  "dayMonthRegex = seqs [WordB, Grp 1 (rep 1 2 (Cls isDigit)), opt ordinal,
     Star True (Cls isSpace), Grp 2 monthName, WordB]"

text \<open>\<open>parseInt\<close> of a text that starts with its digits; without a digit it is \<open>NaN\<close>, \<open>None\<close>.\<close>

definition parseInt :: "jsstring \<Rightarrow> int option" where
  "parseInt s =
     (case takeWhile isDigit s of
        [] \<Rightarrow> None
      | ds \<Rightarrow> Some (foldl (\<lambda>n c. 10 * n + (c - 48)) 0 ds))"

text \<open>
  The body shared by the "Month Day" and the "Day Month" branch, from the month text and the
  day text of the match on: the date in the current year, or in the next one if that date is
  before \<open>now\<close>; \<open>None\<close> when the branch falls through.
\<close>

definition dateInYear :: "jsdate \<Rightarrow> int \<Rightarrow> jsstring \<Rightarrow> jsstring \<Rightarrow> jsdate option" where
  "dateInYear now currentYear monthText dayText =
     (let monthStr = take 3 (toLowerCase monthText);
          day = parseInt dayText;
          month = map_of months monthStr
      in case (month, day) of
           (Some mo, Some dy) \<Rightarrow>
             if 1 \<le> dy \<and> dy \<le> 31
             then (let year = currentYear;
                       targetDate = newDate year mo dy;
                       year = (if targetDate < now then year + 1 else year)
                   in Some (newDate year mo dy))
             else None
         | _ \<Rightarrow> None)"

definition monthDayBranch :: "jsdate \<Rightarrow> int \<Rightarrow> jsstring \<Rightarrow> jsdate option" where
  "monthDayBranch now currentYear text =
     (case match_re monthDayRegex text of
        None \<Rightarrow> None
      | Some m \<Rightarrow>
          (case (group 1 m, group 2 m) of
             (Some g1, Some g2) \<Rightarrow> dateInYear now currentYear g1 g2
           | _ \<Rightarrow> None))"

definition dayMonthBranch :: "jsdate \<Rightarrow> int \<Rightarrow> jsstring \<Rightarrow> jsdate option" where
  "dayMonthBranch now currentYear text =
     (case match_re dayMonthRegex text of
        None \<Rightarrow> None
      | Some m \<Rightarrow>
          (case (group 1 m, group 2 m) of
             (Some g1, Some g2) \<Rightarrow> dateInYear now currentYear g2 g1
           | _ \<Rightarrow> None))"

text \<open>
  \<open>parseDateFromText\<close>. The clock reading \<open>now\<close> (\<open>new Date()\<close>) and the date parser of
  the platform (\<open>new Date(text)\<close>, \<open>None\<close> for an invalid date) are parameters. The source
  has no \<open>throw\<close>: every failed match and every undefined lookup is a branch that falls
  through, and the last branch returns \<open>now\<close>.
\<close>

definition parseDateFromText :: "(jsstring \<Rightarrow> jsdate option) \<Rightarrow> jsdate \<Rightarrow> jsstring \<Rightarrow> jsdate" where
  "parseDateFromText dateParse now text =
     (let currentYear = getFullYear now;
          lower = toLowerCase text
      in if includes_str lower (u ''today'') then now
         else if includes_str lower (u ''tomorrow'') then setDate now (getDate now + 1)
         else if includes_str lower (u ''day after tomorrow'') then setDate now (getDate now + 2)
         else if includes_str lower (u ''next week'') then setDate now (getDate now + 7)
         else if includes_str lower (u ''next month'') then setMonth now (getMonth now + 1)
         else (case dayNameLoop lower now dayNames 0 of
                 Some d \<Rightarrow> d
               | None \<Rightarrow>
                   (case monthDayBranch now currentYear text of
                      Some d \<Rightarrow> d
                    | None \<Rightarrow>
                        (case dayMonthBranch now currentYear text of
                           Some d \<Rightarrow> d
                         | None \<Rightarrow>
                             (case dateParse text of
                                Some standardDate \<Rightarrow> standardDate
                              | None \<Rightarrow> now)))))"

section \<open>Model handles\<close>

text \<open>
  \<open>getGeminiModel\<close> asks the SDK for a handle; what the handle is built from is the API key
  and the model name sent to the service.
\<close>

record generativeModel =
  apiKey :: jsstring
  model :: jsstring

definition getGeminiModel :: "jsstring \<Rightarrow> jsstring option \<Rightarrow> generativeModel" where
  "getGeminiModel key modelNameArg =
     (let modelName = (case modelNameArg of None \<Rightarrow> u ''gemini-2.5-flash-lite'' | Some m \<Rightarrow> m);
          realModel = modelName;
          realModel = (if modelName = u ''gemini-3-flash-preview'' then u ''gemini-1.5-flash'' else realModel);
          realModel = (if modelName = u ''gemini-2.5-flash-lite'' then u ''gemini-1.5-flash'' else realModel)
      in \<lparr>apiKey = key, model = realModel\<rparr>)"

text \<open>
  A handle answers a request with the text of the response, or fails with an error
  (\<open>generateContent\<close>, \<open>result.response\<close> and \<open>response.text()\<close> taken together). Of an
  error the code reads the \<open>message\<close> only, a string or undefined. A handle that is
  null or undefined is \<open>None\<close>.
\<close>

record jserror =
  message :: "jsstring option"

datatype part = Text jsstring | InlineData jsstring jsstring

datatype request = Prompt jsstring | Parts "part list"

type_synonym modelHandle = "request \<Rightarrow> jserror + jsstring"

text \<open>Which handle a call of \<open>generateContent\<close> went to.\<close>

datatype tier = Primary | Backup

section \<open>Scene analysis\<close>

datatype jsval =
    JUndefined
  | JNull
  | JBool bool
  | JNum int
  | JStr jsstring
  | JArr "jsval list"
  | JObj "(jsstring \<times> jsval) list"

text \<open>An object: its properties; a property it does not have is \<open>None\<close>.\<close>

type_synonym jsobject = "jsstring \<Rightarrow> jsval option"

definition truthy :: "jsval \<Rightarrow> bool" where
  "truthy v =
     (case v of
        JUndefined \<Rightarrow> False
      | JNull \<Rightarrow> False
      | JBool b \<Rightarrow> b
      | JNum n \<Rightarrow> n \<noteq> 0
      | JStr s \<Rightarrow> s \<noteq> []
      | JArr _ \<Rightarrow> True
      | JObj _ \<Rightarrow> True)"

text \<open>\<open>a || b\<close>\<close>

definition jsOr :: "jsval \<Rightarrow> jsval \<Rightarrow> jsval" where
  "jsOr a b = (if truthy a then a else b)"

text \<open>
  \<open>e.message?.includes('429') || e.message?.toLowerCase().includes('quota')\<close>: undefined
  when the error has no message.
\<close>

definition quotaTest :: "jserror \<Rightarrow> jsval" where
  "quotaTest e =
     jsOr (case message e of None \<Rightarrow> JUndefined | Some m \<Rightarrow> JBool (includes_str m (u ''429'')))
          (case message e of None \<Rightarrow> JUndefined
           | Some m \<Rightarrow> JBool (includes_str (toLowerCase m) (u ''quota'')))"

text \<open>\<open>e.message || 'Unknown error'\<close>\<close>

definition messageOrUnknown :: "jserror \<Rightarrow> jsstring" where
  "messageOrUnknown e =
     (case message e of None \<Rightarrow> u ''Unknown error''
      | Some m \<Rightarrow> if m = [] then u ''Unknown error'' else m)"

definition scenePrompt :: "jsstring \<Rightarrow> jsstring" where
  \<open>scenePrompt history = join [10]
     [u ''You are Mnemosync, an AI companion designed to help people with Alzheimer's disease remember faces and conversations.'',
      [],
      u ''Analyze this camera image and respond with a JSON object. '',
      [],
      u ''Context:'',
      history,
      [],
      u ''Instructions:'',
      u ''1. Look at the image and determine if there is a person visible.'',
      u ''2. If you see a person, try to match them against the Face Database in the context.'',
      u ''3. If matched, provide their name, relationship, and a brief summary of past conversations.'',
      u ''4. If you see someone new, set personIdentified to true with name as "New Friend" and suggest getting to know them.'',
      u ''5. Include any routine reminders that seem relevant based on the time of day.'',
      [],
      u ''IMPORTANT: Respond ONLY with valid JSON, no markdown or extra text.'',
      [],
      u ''{'',
      u ''  "personIdentified": true or false,'',
      u ''  "name": "string or null",'',
      u ''  "relation": "string or null", '',
      u ''  "summary": "Brief context about this person or observation",'',
      u ''  "nudges": ["Array of routine reminders if any"]'',
      u ''}'']\<close>

text \<open>\<open>/\{[\s\S]*\}/\<close>\<close>

definition jsonRegex :: re where
  "jsonRegex = seqs [lit ''{'', Star True (Cls (\<lambda>c. True)), lit ''}'']"

text \<open>\<open>s.match(regex)[0]\<close>: the text of the first match.\<close>

definition match0 :: "re \<Rightarrow> jsstring \<Rightarrow> jsstring option" where
  "match0 r s = map_option (\<lambda>(st0, m). matched st0 m) (search r (start s))"

text \<open>
  \<open>executeAnalysis\<close>, with \<open>JSON.parse\<close> a parameter. It returns the parsed object, or
  null (\<open>None\<close>) for a handle that is not there, or the error thrown; the second component
  lists the calls of \<open>generateContent\<close> it made, tagged \<open>who\<close>.
\<close>

definition executeAnalysis ::
  "(jsstring \<Rightarrow> jserror + jsobject) \<Rightarrow> jsstring \<Rightarrow> jsstring \<Rightarrow> tier \<Rightarrow> modelHandle option
     \<Rightarrow> (jserror + jsobject option) \<times> tier list" where
  "executeAnalysis jsonParse prompt imageBase64 who modelArg =
     (case modelArg of
        None \<Rightarrow> (Inr None, [])
      | Some generateContent \<Rightarrow>
          (case generateContent (Parts [Text prompt, InlineData imageBase64 (u ''image/jpeg'')]) of
             Inl e \<Rightarrow> (Inl e, [who])
           | Inr text \<Rightarrow>
               (case match0 jsonRegex text of
                  None \<Rightarrow> (Inl \<lparr>message = Some (u ''No valid JSON found in response'')\<rparr>, [who])
                | Some jsonText \<Rightarrow>
                    (case jsonParse jsonText of
                       Inl e \<Rightarrow> (Inl e, [who])
                     | Inr obj \<Rightarrow> (Inr (Some obj), [who])))))"

text \<open>\<open>{...result}\<close>: the properties of \<open>result\<close>, none for null.\<close>

definition spread :: "jsobject option \<Rightarrow> jsobject" where
  "spread r = (case r of None \<Rightarrow> Map.empty | Some obj \<Rightarrow> obj)"

text \<open>
  \<open>analyzeScene\<close>: the value returned (\<open>None\<close> is null) and the calls made, in order.
\<close>

definition analyzeScene ::
  "(jsstring \<Rightarrow> jserror + jsobject) \<Rightarrow> modelHandle option \<Rightarrow> modelHandle option \<Rightarrow> jsstring
     \<Rightarrow> jsstring \<Rightarrow> jsobject option \<times> tier list" where
  "analyzeScene jsonParse primaryModel backupModel imageBase64 history =
     (let prompt = scenePrompt history
      in case executeAnalysis jsonParse prompt imageBase64 Primary primaryModel of
           (Inr r, calls) \<Rightarrow> (r, calls)
         | (Inl primaryError, calls) \<Rightarrow>
             (let isQuotaExceeded = quotaTest primaryError
              in case backupModel of
                   Some b \<Rightarrow>
                     (case executeAnalysis jsonParse prompt imageBase64 Backup (Some b) of
                        (Inr result, calls') \<Rightarrow>
                          (Some ((spread result)(u ''usedBackup'' \<mapsto> JBool True)), calls @ calls')
                      | (Inl backupError, calls') \<Rightarrow>
                          (Some (map_of
                             [(u ''personIdentified'', JBool False),
                              (u ''name'', JNull),
                              (u ''relation'', JNull),
                              (u ''summary'', JStr (u ''Vision Error (All models): ''
                                 @ messageOrUnknown backupError)),
                              (u ''isQuotaExceeded'', jsOr isQuotaExceeded (quotaTest backupError)),
                              (u ''nudges'', JArr [])]),
                           calls @ calls'))
                 | None \<Rightarrow>
                     (Some (map_of
                        [(u ''personIdentified'', JBool False),
                         (u ''name'', JNull),
                         (u ''relation'', JNull),
                         (u ''summary'', JStr (if truthy isQuotaExceeded
                            then u ''Quota Exceeded: Please wait a minute before scanning again.''
                            else u ''Vision Error: '' @ messageOrUnknown primaryError)),
                         (u ''isQuotaExceeded'', isQuotaExceeded),
                         (u ''nudges'', JArr [])]),
                      calls)))"

section \<open>Conversation analysis: choosing the response\<close>

record conversationEntry =
  speaker :: jsstring
  entryText :: jsstring
  timestamp :: jsdate

record visitor =
  name :: jsstring
  relation :: jsstring

text \<open>A set built from an array, spread again: the first occurrence of each element, in order.\<close>

fun unique :: "jsstring list \<Rightarrow> jsstring list" where
  "unique [] = []"
| "unique (x # xs) = x # filter (\<lambda>y. y \<noteq> x) (unique xs)"

text \<open>
  \<open>/(?:jan|feb|mar|apr|may|jun|jul|aug|sep|oct|nov|dec)[a-z]*\s+\d{1,2}(?:st|nd|rd|th)?/gi\<close>
\<close>

definition dateRegex :: re where
  "dateRegex = seqs
     [alts [liti ''jan'', liti ''feb'', liti ''mar'', liti ''apr'', liti ''may'', liti ''jun'',
            liti ''jul'', liti ''aug'', liti ''sep'', liti ''oct'', liti ''nov'', liti ''dec''],
      Star True (Cls isAlpha), plus_re (Cls isSpace), rep 1 2 (Cls isDigit), opt ordinal]"

text \<open>\<open>/((?:today|tomorrow|next week|next month))/i\<close>\<close>

definition relativeRegex :: re where
  "relativeRegex =
     Grp 1 (alts [liti ''today'', liti ''tomorrow'', liti ''next week'', liti ''next month''])"

definition generateMockResponse :: "jsstring \<Rightarrow> jsstring \<Rightarrow> jsstring \<Rightarrow> jsstring" where
  "generateMockResponse text visitorName visitorRelation =
     (let lowerText = toLowerCase text;
          mockDate =
            (case matchAll dateRegex text of
               Some matches \<Rightarrow>
                 (let foundDates = map trim matches;
                      uniqueDates = unique foundDates
                  in join (u '', '') uniqueDates)
             | None \<Rightarrow>
                 (case match0 relativeRegex text of
                    Some relMatch \<Rightarrow> relMatch
                  | None \<Rightarrow> u ''None''));
          mockAction =
            (if includes_str lowerText (u ''remind'') \<or> includes_str lowerText (u ''remember'')
                \<or> includes_str lowerText (u ''don't forget'')
             then text else u ''None'')
      in [10] @ u ''VISITOR: '' @ visitorName @ u '', '' @ visitorRelation @ [10]
         @ u ''SUMMARY: You had a conversation with '' @ visitorName @ u ''. You discussed ''
         @ (if mockDate \<noteq> u ''None'' then u ''dates: '' @ mockDate else u ''various topics'')
         @ u ''.'' @ [10]
         @ u ''DATES: '' @ mockDate @ [10]
         @ u ''ACTIONS: '' @ mockAction @ [10])"

definition conversationPrompt :: "jsstring \<Rightarrow> jsstring \<Rightarrow> jsstring \<Rightarrow> jsstring \<Rightarrow> jsstring" where
  \<open>conversationPrompt patientName visitorName visitorRelation conversationText = join [10]
     [u ''You are helping an Alzheimer's patient named '' @ patientName
        @ u '' remember a conversation they just had.'',
      [],
      u ''The conversation was between:'',
      u ''- "You" = '' @ patientName @ u '' (the Alzheimer's patient)'',
      u ''- "Visitor" = '' @ visitorName @ u '' ('' @ visitorRelation @ u '')'',
      [],
      u ''Conversation:'',
      conversationText,
      [],
      u ''Provide a gentle, caring summary for '' @ patientName @ u '' explaining:'',
      u ''1. WHO they were talking to (use the visitor's name and relationship if known)'',
      u ''2. WHAT they discussed (key topics in simple terms)'',
      u ''3. Any IMPORTANT things to remember (dates, promises, tasks)'',
      [],
      u ''Also, double check if the "You" and "Visitor" speakers are logically correct. For example, if someone says "Hi User", they must be the Visitor. If there are mistakes, fix them in the transcript.'',
      [],
      u ''Respond in this exact format:'',
      u ''VISITOR: [visitor's name and their relationship to '' @ patientName
        @ u '', or "Unknown visitor" if not clear]'',
      u ''SUMMARY: [A warm, simple 1-2 sentence summary written as if speaking directly to ''
        @ patientName @ u '']'',
      u ''DATES: [Any dates, appointments, or deadlines mentioned, or "None"]'',
      u ''ACTIONS: [Any promises made or tasks to do, or "None"]'',
      u ''TRANSCRIPT:'',
      u ''[Speaker]: "Corrected text"'',
      u ''...'']\<close>

definition conversationTextOf :: "conversationEntry list \<Rightarrow> jsstring" where
  \<open>conversationTextOf convos =
     join [10] (map (\<lambda>c. speaker c @ u '': "'' @ entryText c @ u ''"'') convos)\<close>

definition FORCE_MOCK_AI :: bool where
  "FORCE_MOCK_AI = False"

text \<open>\<open>visitorInfo?.name || 'the visitor'\<close> and \<open>visitorInfo?.relation || 'someone'\<close>\<close>

definition visitorNameOf :: "visitor option \<Rightarrow> jsstring" where
  "visitorNameOf visitorInfo =
     (case visitorInfo of None \<Rightarrow> u ''the visitor''
      | Some v \<Rightarrow> if name v = [] then u ''the visitor'' else name v)"

definition visitorRelationOf :: "visitor option \<Rightarrow> jsstring" where
  "visitorRelationOf visitorInfo =
     (case visitorInfo of None \<Rightarrow> u ''someone''
      | Some v \<Rightarrow> if relation v = [] then u ''someone'' else relation v)"

text \<open>
  The first part of \<open>analyzeConversation\<close>, up to the response it then parses: the text
  chosen and the calls of \<open>generateContent\<close> made, in order. No text, \<open>None\<close>, is the
  return at the guard of the first line, where nothing is done.
\<close>

definition conversationResponse ::
  "modelHandle option \<Rightarrow> modelHandle option \<Rightarrow> bool \<Rightarrow> jsstring \<Rightarrow> visitor option
     \<Rightarrow> conversationEntry list \<Rightarrow> jsstring option \<times> tier list" where
  "conversationResponse primaryModel backupModel isProcessing patientName visitorInfo convos =
     (case primaryModel of
        None \<Rightarrow> (None, [])
      | Some primary \<Rightarrow>
          if convos = [] \<or> isProcessing then (None, [])
          else
            (let conversationText = conversationTextOf convos;
                 visitorName = visitorNameOf visitorInfo;
                 visitorRelation = visitorRelationOf visitorInfo
             in if FORCE_MOCK_AI
                then (Some (generateMockResponse conversationText visitorName visitorRelation), [])
                else
                  (let prompt = conversationPrompt patientName visitorName visitorRelation
                         conversationText
                   in case primary (Prompt prompt) of
                        Inr text \<Rightarrow> (Some text, [Primary])
                      | Inl primaryError \<Rightarrow>
                          (case backupModel of
                             Some backup \<Rightarrow>
                               (case backup (Prompt prompt) of
                                  Inr text \<Rightarrow> (Some text, [Primary, Backup])
                                | Inl backupError \<Rightarrow>
                                    (Some (generateMockResponse conversationText visitorName
                                             visitorRelation), [Primary, Backup]))
                           | None \<Rightarrow>
                               (Some (generateMockResponse conversationText visitorName
                                        visitorRelation), [Primary])))))"

section \<open>Conversation analysis: saving dates and actions\<close>

datatype eventType = Meeting | Appointment | Reminder

text \<open>
  A record of the store \<open>dates\<close>. The field \<open>date\<close> holds the instant whose
  \<open>toISOString()\<close> the source stores.
\<close>

record importantDate =
  ident :: jsstring
  date :: jsdate
  event :: jsstring
  eventType :: eventType
  createdAt :: jsdate

datatype dbError = ConstraintError

text \<open>
  \<open>addDate\<close>: \<open>db.add\<close> on the store keyed by \<open>id\<close>, which rejects a record whose key
  is in the store. The store is the list of its records in the order of their keys, which
  is the order \<open>getAllDates\<close> returns them in: string keys are compared code unit by
  code unit, a proper prefix first, and that is the order of the lists of code units.
\<close>

definition addDate :: "importantDate \<Rightarrow> importantDate list \<Rightarrow> dbError + importantDate list" where
  "addDate d db =
     (if ident d \<in> set (map ident db) then Inl ConstraintError else Inr (insort_key ident d db))"

text \<open>\<open>s.replace(regex, '')\<close> without the \<open>g\<close> flag: the first match is cut out.\<close>

definition removeFirst :: "re \<Rightarrow> jsstring \<Rightarrow> jsstring" where
  "removeFirst r s =
     (case search r (start s) of None \<Rightarrow> s | Some (st0, m) \<Rightarrow> rev (seen st0) @ rest m)"

text \<open>
  The two markers of the source, as the code units its file holds: the one put in front of a
  date task and the one put in front of an action.
\<close>

definition dateMarker :: jsstring where
  "dateMarker = [63743, 252, 236, 214]"

definition actionMarker :: jsstring where
  "actionMarker = [8218, 250, 214]"

text \<open>
  \<open>/^-\s*|^[...]\s*/\<close>, the class being the code units of the two markers (without the
  \<open>u\<close> flag a class is a set of code units).
\<close>

definition bulletRegex :: re where
  "bulletRegex = Alt (seqs [Bol, lit ''-'', Star True (Cls isSpace)])
     (seqs [Bol, Cls (\<lambda>c. c \<in> set (dateMarker @ actionMarker)), Star True (Cls isSpace)])"

definition cleanLine :: "jsstring \<Rightarrow> jsstring" where
  "cleanLine l = trim (removeFirst bulletRegex l)"

text \<open>\<open>/\n|,/\<close>\<close>

definition lineSeparator :: re where
  "lineSeparator = Alt (Cls (\<lambda>c. c = 10)) (lit '','')"

text \<open>
  The body of the two \<open>forEach\<close> loops: each line is cleaned, its date parsed, and a
  record with a new id added. The ids come from \<open>generateId()\<close>, which reads the clock and
  a random number: \<open>ids n\<close> is the id its \<open>n\<close>-th call returns. An add that is rejected is
  caught and logged in the loop of the dates and left unhandled in the loop of the actions;
  in both the record is not stored and the loop goes on.
\<close>

fun saveLines ::
  "(jsstring \<Rightarrow> jsdate option) \<Rightarrow> jsdate \<Rightarrow> (nat \<Rightarrow> jsstring) \<Rightarrow> eventType \<Rightarrow> jsstring list
     \<Rightarrow> importantDate list \<times> nat \<Rightarrow> importantDate list \<times> nat" where
  "saveLines dateParse now ids ty [] (db, n) = (db, n)"
| "saveLines dateParse now ids ty (line # ls) (db, n) =
     (let cleaned = cleanLine line;
          parsedDate = parseDateFromText dateParse now cleaned;
          r = \<lparr>ident = ids n, date = parsedDate, event = cleaned, eventType = ty,
               createdAt = parsedDate\<rparr>
      in saveLines dateParse now ids ty ls
           (case addDate r db of Inl e \<Rightarrow> db | Inr db' \<Rightarrow> db', n + 1))"

text \<open>
  \<open>if (datesMatch) { ... }\<close> and \<open>if (actionsMatch) { ... }\<close>, from the text of group 1
  of the match on (\<open>None\<close>: no match).
\<close>

definition saveMentions ::
  "(jsstring \<Rightarrow> jsdate option) \<Rightarrow> jsdate \<Rightarrow> (nat \<Rightarrow> jsstring) \<Rightarrow> eventType \<Rightarrow> jsstring option
     \<Rightarrow> importantDate list \<times> nat \<Rightarrow> importantDate list \<times> nat" where
  "saveMentions dateParse now ids ty matchGroup st =
     (case matchGroup of
        None \<Rightarrow> st
      | Some g \<Rightarrow>
          (let mentionsText = trim g
           in if mentionsText \<noteq> [] \<and> \<not> includes_str (toLowerCase mentionsText) (u ''none'')
              then saveLines dateParse now ids ty
                     (filter (\<lambda>l. trim l \<noteq> []) (split_re lineSeparator mentionsText)) st
              else st))"

definition saveDatesAndActions ::
  "(jsstring \<Rightarrow> jsdate option) \<Rightarrow> jsdate \<Rightarrow> (nat \<Rightarrow> jsstring) \<Rightarrow> jsstring option
     \<Rightarrow> jsstring option \<Rightarrow> importantDate list \<times> nat \<Rightarrow> importantDate list \<times> nat" where
  "saveDatesAndActions dateParse now ids datesMatch actionsMatch st =
     saveMentions dateParse now ids Reminder actionsMatch
       (saveMentions dateParse now ids Appointment datesMatch st)"

section \<open>Conversation analysis: the sections of the response\<close>

text \<open>
  \<open>/DATES:\s*(.+?)(?=ACTIONS:|$)/s\<close> and \<open>/ACTIONS:\s*(.+?)$/s\<close>; with the \<open>s\<close> flag
  the dot is any code unit.
\<close>

definition datesRegex :: re where
  "datesRegex = seqs [lit ''DATES:'', Star True (Cls isSpace),
     Grp 1 (Seq (Cls (\<lambda>c. True)) (Star False (Cls (\<lambda>c. True)))),
     Ahead (Alt (lit ''ACTIONS:'') Eol)]"

definition actionsRegex :: re where
  "actionsRegex = seqs [lit ''ACTIONS:'', Star True (Cls isSpace),
     Grp 1 (Seq (Cls (\<lambda>c. True)) (Star False (Cls (\<lambda>c. True)))), Eol]"

text \<open>\<open>response.match(regex)\<close>, of which the code reads group 1 only.\<close>

definition group1Of :: "re \<Rightarrow> jsstring \<Rightarrow> jsstring option" where
  "group1Of r response = (case match_re r response of None \<Rightarrow> None | Some m \<Rightarrow> group 1 m)"

text \<open>
  The "hybrid enhancement": the dates the expression \<open>dateRegex\<close> finds in the text of the
  conversation are merged into the dates of the response. The result is the text that
  \<open>datesMatch[1]\<close> holds afterwards.
\<close>

definition mergeDates :: "jsstring \<Rightarrow> jsstring option \<Rightarrow> jsstring option" where
  "mergeDates conversationText datesMatch =
     (case matchAll dateRegex conversationText of
        None \<Rightarrow> datesMatch
      | Some regexMatches \<Rightarrow>
          (let foundDates = map trim regexMatches;
               uniqueRegexDates = unique foundDates;
               combinedDates =
                 (case datesMatch of
                    Some g \<Rightarrow>
                      (let existingDates = trim g
                       in if includes_str (toLowerCase existingDates) (u ''none'')
                          then join (u '', '') uniqueRegexDates
                          else (let existingDateArray =
                                      filter (\<lambda>d. d \<noteq> [])
                                        (map trim (split_re (lit '','') existingDates));
                                    allDates = unique (existingDateArray @ uniqueRegexDates)
                                in join (u '', '') allDates))
                  | None \<Rightarrow> join (u '', '') uniqueRegexDates)
           in if combinedDates \<noteq> [] then Some combinedDates else datesMatch))"

text \<open>
  What \<open>analyzeConversation\<close> saves for a response: the dates of the response, merged,
  and then its actions.
\<close>

definition saveFromResponse ::
  "(jsstring \<Rightarrow> jsdate option) \<Rightarrow> jsdate \<Rightarrow> (nat \<Rightarrow> jsstring) \<Rightarrow> jsstring \<Rightarrow> jsstring
     \<Rightarrow> importantDate list \<times> nat \<Rightarrow> importantDate list \<times> nat" where
  "saveFromResponse dateParse now ids response conversationText st =
     saveDatesAndActions dateParse now ids
       (mergeDates conversationText (group1Of datesRegex response))
       (group1Of actionsRegex response) st"

section \<open>Conversation turns after they are recorded\<close>

text \<open>The effect that renames the turns of the visitor once the visitor is known.\<close>

definition relabelVisitor :: "visitor option \<Rightarrow> conversationEntry list \<Rightarrow> conversationEntry list" where
  "relabelVisitor visitorInfo prev =
     (case visitorInfo of
        None \<Rightarrow> prev
      | Some v \<Rightarrow>
          if name v \<noteq> [] \<and> name v \<noteq> u ''the visitor''
          then map (\<lambda>entry. entry\<lparr>speaker :=
                      (if speaker entry = u ''Visitor'' then name v else speaker entry)\<rparr>) prev
          else prev)"

text \<open>\<open>/TRANSCRIPT:\s*(.+)$/s\<close>\<close>

definition transcriptRegex :: re where
  "transcriptRegex = seqs [lit ''TRANSCRIPT:'', Star True (Cls isSpace),
     Grp 1 (plus_re (Cls (\<lambda>c. True))), Eol]"

text \<open>\<open>/^(.+?):\s*"(.*)"$/\<close>\<close>

definition transcriptLineRegex :: re where
  "transcriptLineRegex = seqs [Bol, Grp 1 (Seq (Cls isDot) (Star False (Cls isDot))), lit '':'',
     Star True (Cls isSpace), Cls (\<lambda>c. c = 34), Grp 2 (Star True (Cls isDot)),
     Cls (\<lambda>c. c = 34), Eol]"

text \<open>
  \<open>transcriptLines.forEach((line, idx) => ...)\<close> on the copy \<open>next\<close> of the turns, from
  index \<open>idx\<close> on.
\<close>

fun correctLines :: "jsstring list \<Rightarrow> nat \<Rightarrow> conversationEntry list \<Rightarrow> conversationEntry list" where
  "correctLines [] idx next = next"
| "correctLines (line # ls) idx next =
     correctLines ls (idx + 1)
       (if idx < length next
        then (case match_re transcriptLineRegex line of
                None \<Rightarrow> next
              | Some m \<Rightarrow>
                  (case (group 1 m, group 2 m) of
                     (Some g1, Some g2) \<Rightarrow>
                       next[idx := (next ! idx)\<lparr>speaker := trim g1, entryText := trim g2\<rparr>]
                   | _ \<Rightarrow> next))
        else next)"

text \<open>The transcript correction at the end of \<open>analyzeConversation\<close>.\<close>

definition correctTranscript :: "jsstring \<Rightarrow> conversationEntry list \<Rightarrow> conversationEntry list" where
  "correctTranscript response prev =
     (case match_re transcriptRegex response of
        None \<Rightarrow> prev
      | Some m \<Rightarrow>
          (case group 1 m of
             None \<Rightarrow> prev
           | Some g \<Rightarrow> correctLines (split_re (Cls (\<lambda>c. c = 10)) (trim g)) 0 prev))"

section \<open>Tasks found in a speech result\<close>

text \<open>\<open>/\b(?:and|then|also)\b/i\<close>\<close>

definition conjunctionRegex :: re where
  "conjunctionRegex = seqs [WordB, alts [liti ''and'', liti ''then'', liti ''also''], WordB]"

definition timeTerms :: re where
  "timeTerms = alts
     [liti ''tomorrow'', liti ''tonight'', liti ''today'',
      seqs [liti ''next'', plus_re (Cls isSpace), Alt (liti ''week'') (liti ''month'')],
      liti ''monday'', liti ''tuesday'', liti ''wednesday'', liti ''thursday'', liti ''friday'',
      liti ''saturday'', liti ''sunday'', liti ''january'', liti ''february'', liti ''march'',
      liti ''april'', liti ''may'', liti ''june'', liti ''july'', liti ''august'',
      liti ''september'', liti ''october'', liti ''november'', liti ''december'', liti ''jan'',
      liti ''feb'', liti ''mar'', liti ''apr'', liti ''may'', liti ''jun'', liti ''jul'',
      liti ''aug'', liti ''sep'', liti ''oct'', liti ''nov'', liti ''dec'']"

definition isAlphaOrSpace :: "jschar \<Rightarrow> bool" where
  "isAlphaOrSpace c = (isAlpha c \<or> isSpace c)"

text \<open>
  \<open>\b([a-zA-Z\s]{3,30})\s+(on|at|by|for|this)\s+(timeTerms(?:\s+\d{1,2}(?:st|nd|rd|th)?)?)\<close>,
  flags \<open>gi\<close>
\<close>

definition taskDateRegex :: re where
  "taskDateRegex = seqs
     [WordB, Grp 1 (rep 3 30 (Cls isAlphaOrSpace)), plus_re (Cls isSpace),
      Grp 2 (alts [liti ''on'', liti ''at'', liti ''by'', liti ''for'', liti ''this'']),
      plus_re (Cls isSpace),
      Grp 3 (Seq timeTerms
        (opt (seqs [plus_re (Cls isSpace), rep 1 2 (Cls isDigit), opt ordinal])))]"

text \<open>\<open>/\b(?:remember to|don't forget to|remind me to)\s+([a-zA-Z\s]{3,40})/gi\<close>\<close>

definition actionRegex :: re where
  "actionRegex = seqs
     [WordB, alts [liti ''remember to'', liti ''don't forget to'', liti ''remind me to''],
      plus_re (Cls isSpace), Grp 1 (rep 3 40 (Cls isAlphaOrSpace))]"

text \<open>The task a match of \<open>taskDateRegex\<close> pushes, if it pushes one.\<close>

definition dateTaskOf :: "mstate \<Rightarrow> jsstring list" where
  "dateTaskOf m =
     (case (group 1 m, group 3 m) of
        (Some g1, Some g3) \<Rightarrow>
          (let taskName = trim g1; timeInfo = trim g3
           in if 2 < length taskName
                 \<and> toLowerCase taskName \<notin> set [u ''what'', u ''when'', u ''how'', u ''going'']
              then [dateMarker @ u '' '' @ taskName @ u '' on '' @ timeInfo]
              else [])
      | _ \<Rightarrow> [])"

definition actionTaskOf :: "mstate \<Rightarrow> jsstring list" where
  "actionTaskOf m =
     (case group 1 m of Some g1 \<Rightarrow> [actionMarker @ u '' '' @ trim g1] | None \<Rightarrow> [])"

text \<open>
  The body of \<open>segments.forEach\<close>: the tasks one segment adds to \<open>foundTasks\<close>; \<open>None\<close>
  if one of its two \<open>while\<close> loops does not end.
\<close>

definition segmentTasks :: "jsstring \<Rightarrow> jsstring list option" where
  "segmentTasks segment =
     (let cleanSegment = trim segment
      in if cleanSegment = [] then Some []
         else (case execAll taskDateRegex (start cleanSegment) of
                 None \<Rightarrow> None
               | Some dateMatches \<Rightarrow>
                   (case execAll actionRegex (start cleanSegment) of
                      None \<Rightarrow> None
                    | Some actionMatches \<Rightarrow>
                        Some (concat (map (dateTaskOf \<circ> snd) dateMatches)
                              @ concat (map (actionTaskOf \<circ> snd) actionMatches)))))"

fun segmentsTasks :: "jsstring list \<Rightarrow> jsstring list option" where
  "segmentsTasks [] = Some []"
| "segmentsTasks (segment # segments) =
     (case segmentTasks segment of
        None \<Rightarrow> None
      | Some tasks \<Rightarrow> map_option (\<lambda>more. tasks @ more) (segmentsTasks segments))"

text \<open>
  The real-time task extraction of \<open>handleSpeechResult\<close>: the list \<open>foundTasks\<close>, each
  element of which is then passed to \<open>onDateDetected\<close>. On a transcript that is blank
  the function returns in its first line and nothing is passed.
\<close>

definition extractTasks :: "jsstring \<Rightarrow> jsstring list option" where
  "extractTasks transcript =
     (if trim transcript = [] then Some []
      else segmentsTasks (split_re conjunctionRegex transcript))"

section \<open>Tasks found when the recording stops\<close>

text \<open>
  The extraction of \<open>toggleListening\<close>, run when the recording is stopped and there is at
  least one turn. Here a task is pushed only if \<open>foundTasks\<close> does not hold it yet.
\<close>

definition pushNew :: "jsstring list \<Rightarrow> jsstring \<Rightarrow> jsstring list" where
  "pushNew foundTasks task = (if task \<in> set foundTasks then foundTasks else foundTasks @ [task])"

definition segmentTasksOnStop :: "jsstring list \<Rightarrow> jsstring \<Rightarrow> jsstring list option" where
  "segmentTasksOnStop foundTasks segment =
     (let cleanSegment = trim segment
      in if cleanSegment = [] then Some foundTasks
         else (case execAll taskDateRegex (start cleanSegment) of
                 None \<Rightarrow> None
               | Some dateMatches \<Rightarrow>
                   (case execAll actionRegex (start cleanSegment) of
                      None \<Rightarrow> None
                    | Some actionMatches \<Rightarrow>
                        Some (foldl pushNew
                               (foldl pushNew foundTasks
                                  (concat (map (dateTaskOf \<circ> snd) dateMatches)))
                               (concat (map (actionTaskOf \<circ> snd) actionMatches))))))"

fun segmentsTasksOnStop :: "jsstring list \<Rightarrow> jsstring list \<Rightarrow> jsstring list option" where
  "segmentsTasksOnStop foundTasks [] = Some foundTasks"
| "segmentsTasksOnStop foundTasks (segment # segments) =
     (case segmentTasksOnStop foundTasks segment of
        None \<Rightarrow> None
      | Some found \<Rightarrow> segmentsTasksOnStop found segments)"

definition longMonthName :: re where
  "longMonthName = alts
     [liti ''january'', liti ''february'', liti ''march'', liti ''april'', liti ''may'',
      liti ''june'', liti ''july'', liti ''august'', liti ''september'', liti ''october'',
      liti ''november'', liti ''december'']"

text \<open>
  \<open>simpleDatePatterns\<close>, all three with the flags \<open>gi\<close>:
  \<open>/\b(january|...|december)\s+\d{1,2}(st|nd|rd|th)?\b/\<close>,
  \<open>/\b(tomorrow|tonight|today|next\s+(?:week|month))\b/\<close> and
  \<open>/\b(monday|tuesday|wednesday|thursday|friday|saturday|sunday)\b/\<close>.
\<close>

definition simpleDatePatterns :: "re list" where
  "simpleDatePatterns =
     [seqs [WordB, Grp 1 longMonthName, plus_re (Cls isSpace), rep 1 2 (Cls isDigit),
            opt (Grp 2 ordinal), WordB],
      seqs [WordB, Grp 1 (alts [liti ''tomorrow'', liti ''tonight'', liti ''today'',
              seqs [liti ''next'', plus_re (Cls isSpace), Alt (liti ''week'') (liti ''month'')]]),
            WordB],
      seqs [WordB, Grp 1 (alts [liti ''monday'', liti ''tuesday'', liti ''wednesday'',
              liti ''thursday'', liti ''friday'', liti ''saturday'', liti ''sunday'']), WordB]]"

text \<open>
  The body of the \<open>while\<close> loop over the matches of one simple pattern: a date text that
  a task found so far includes is passed over; otherwise the task is made of up to three
  words, each longer than two code units, out of the thirty code units before the match.
\<close>

definition simpleDateStep :: "jsstring list \<Rightarrow> mstate \<times> mstate \<Rightarrow> jsstring list" where
  "simpleDateStep foundTasks match =
     (let dateStr = matched (fst match) (snd match)
      in if list_ex (\<lambda>t. includes_str (toLowerCase t) (toLowerCase dateStr)) foundTasks
         then foundTasks
         else (let prefix = trim (rev (take 30 (seen (fst match))));
                   ws = filter (\<lambda>w. 2 < length w) (split_re (Cls (\<lambda>c. c = 32)) prefix);
                   context = join (u '' '') (drop (length ws - 3) ws);
                   task = (if 3 < length context
                           then dateMarker @ u '' '' @ context @ u '' on '' @ dateStr
                           else dateMarker @ u '' Action on '' @ dateStr)
               in pushNew foundTasks task))"

fun simpleDates :: "jsstring \<Rightarrow> jsstring list \<Rightarrow> re list \<Rightarrow> jsstring list option" where
  "simpleDates fullText foundTasks [] = Some foundTasks"
| "simpleDates fullText foundTasks (pattern # patterns) =
     (case execAll pattern (start fullText) of
        None \<Rightarrow> None
      | Some matches \<Rightarrow> simpleDates fullText (foldl simpleDateStep foundTasks matches) patterns)"

text \<open>
  The list \<open>foundTasks\<close> that \<open>toggleListening\<close> passes to \<open>onDateDetected\<close>, element by
  element; \<open>None\<close> if one of its \<open>while\<close> loops does not end.
\<close>

definition tasksOnStop :: "conversationEntry list \<Rightarrow> jsstring list option" where
  "tasksOnStop conversations =
     (if conversations = [] then Some []
      else (let fullText = join (u '' '') (map entryText conversations);
                segments = split_re conjunctionRegex fullText
            in case segmentsTasksOnStop [] segments of
                 None \<Rightarrow> None
               | Some foundTasks \<Rightarrow> simpleDates fullText foundTasks simpleDatePatterns))"

section \<open>Example inputs\<close>

text \<open>
  Handles and a stand-in for \<open>JSON.parse\<close> on which the properties below are run: a
  handle that is refused for quota, one that fails otherwise, one that answers.
\<close>

definition quotaFailure :: modelHandle where
  "quotaFailure req = Inl \<lparr>message = Some (u ''429 Too Many Requests'')\<rparr>"

definition otherFailure :: modelHandle where
  "otherFailure req = Inl \<lparr>message = Some (u ''network down'')\<rparr>"

definition answering :: modelHandle where
  \<open>answering req = Inr (u ''{"summary": "Nobody in view"}'')\<close>

text \<open>A handle that answers, in words and without a JSON object.\<close>

definition describing :: modelHandle where
  "describing req = Inr (u ''I see nobody'')"

definition parseExample :: "jsstring \<Rightarrow> jserror + jsobject" where
  "parseExample s = Inr (map_of [(u ''summary'', JStr (u ''Nobody in view''))])"

text \<open>Ids for \<open>generateId\<close>: x, xx, xxx, and so on, all different.\<close>

definition exampleIds :: "nat \<Rightarrow> jsstring" where
  "exampleIds n = replicate (Suc n) 120"

text \<open>A response that names one appointment twice, and the text of a short conversation.\<close>

definition exampleResponse :: jsstring where
  "exampleResponse = [10] @ u ''VISITOR: Ann, daughter'' @ [10] @ u ''SUMMARY: A visit.'' @ [10]
     @ u ''DATES: Lunch with Ann, Lunch with Ann'' @ [10] @ u ''ACTIONS: None'' @ [10]"

definition exampleDatedConversationText :: jsstring where
  "exampleDatedConversationText = conversationTextOf
     [\<lparr>speaker = u ''You'', entryText = u ''see you on Feb 16'', timestamp = 1771117200000\<rparr>]"

definition exampleConversationText :: jsstring where
  "exampleConversationText = conversationTextOf
     [\<lparr>speaker = u ''You'', entryText = u ''hello'', timestamp = 1771117200000\<rparr>]"

section \<open>Properties\<close>

subsection \<open>The paths of the scene analysis\<close>

lemma executeAnalysis_calls:
  "snd (executeAnalysis jp pr img who m) = (case m of None \<Rightarrow> [] | Some g \<Rightarrow> [who])"
  by (simp add: executeAnalysis_def split: option.splits sum.splits)

lemma analyzeScene_primary_ok:
  "executeAnalysis jp (scenePrompt h) img Primary p = (Inr r, c) \<Longrightarrow>
   analyzeScene jp p b img h = (r, c)"
  by (simp add: analyzeScene_def)

lemma analyzeScene_no_backup:
  "executeAnalysis jp (scenePrompt h) img Primary p = (Inl e, c) \<Longrightarrow>
   analyzeScene jp p None img h =
     (Some (map_of
        [(u ''personIdentified'', JBool False), (u ''name'', JNull), (u ''relation'', JNull),
         (u ''summary'', JStr (if truthy (quotaTest e)
            then u ''Quota Exceeded: Please wait a minute before scanning again.''
            else u ''Vision Error: '' @ messageOrUnknown e)),
         (u ''isQuotaExceeded'', quotaTest e), (u ''nudges'', JArr [])]), c)"
  by (simp add: analyzeScene_def Let_def)

lemma analyzeScene_backup_ok:
  "executeAnalysis jp (scenePrompt h) img Primary p = (Inl e, c) \<Longrightarrow>
   executeAnalysis jp (scenePrompt h) img Backup (Some bm) = (Inr r, c') \<Longrightarrow>
   analyzeScene jp p (Some bm) img h
     = (Some ((spread r)(u ''usedBackup'' \<mapsto> JBool True)), c @ c')"
  by (simp add: analyzeScene_def Let_def)

lemma analyzeScene_backup_failed:
  "executeAnalysis jp (scenePrompt h) img Primary p = (Inl e, c) \<Longrightarrow>
   executeAnalysis jp (scenePrompt h) img Backup (Some bm) = (Inl e', c') \<Longrightarrow>
   analyzeScene jp p (Some bm) img h =
     (Some (map_of
        [(u ''personIdentified'', JBool False), (u ''name'', JNull), (u ''relation'', JNull),
         (u ''summary'', JStr (u ''Vision Error (All models): '' @ messageOrUnknown e')),
         (u ''isQuotaExceeded'', jsOr (quotaTest e) (quotaTest e')), (u ''nudges'', JArr [])]),
      c @ c')"
  by (simp add: analyzeScene_def Let_def)

lemma truthy_jsOr: "truthy (jsOr a b) = (truthy a \<or> truthy b)"
  by (simp add: jsOr_def)

lemma truthy_quotaTest:
  "truthy (quotaTest e)
     = (case message e of None \<Rightarrow> False
        | Some m \<Rightarrow> includes_str m (u ''429'') \<or> includes_str (toLowerCase m) (u ''quota''))"
  by (simp add: quotaTest_def jsOr_def truthy_def split: option.splits)

lemma error_object_fields:
  "map_of [(u ''personIdentified'', JBool False), (u ''name'', JNull), (u ''relation'', JNull),
           (u ''summary'', s), (u ''isQuotaExceeded'', q), (u ''nudges'', JArr [])] = obj \<Longrightarrow>
   obj (u ''personIdentified'') = Some (JBool False) \<and> obj (u ''name'') = Some JNull
   \<and> obj (u ''relation'') = Some JNull \<and> obj (u ''nudges'') = Some (JArr [])
   \<and> obj (u ''isQuotaExceeded'') = Some q"
  by (auto simp: u_def)

lemma example_json:
  \<open>match0 jsonRegex (u ''{"summary": "Nobody in view"}'') = Some (u ''{"summary": "Nobody in view"}'')\<close>
  by code_simp

lemma example_quota_execute:
  "executeAnalysis jp pr img who (Some quotaFailure)
     = (Inl \<lparr>message = Some (u ''429 Too Many Requests'')\<rparr>, [who])"
  by (simp add: executeAnalysis_def quotaFailure_def)

lemma example_other_execute:
  "executeAnalysis jp pr img who (Some otherFailure)
     = (Inl \<lparr>message = Some (u ''network down'')\<rparr>, [who])"
  by (simp add: executeAnalysis_def otherFailure_def)

lemma example_answer_execute:
  "executeAnalysis parseExample pr img who (Some answering)
     = (Inr (Some (map_of [(u ''summary'', JStr (u ''Nobody in view''))])), [who])"
  by (simp add: executeAnalysis_def answering_def example_json parseExample_def)

lemma example_quota_truthy: "truthy (quotaTest \<lparr>message = Some (u ''429 Too Many Requests'')\<rparr>)"
  unfolding truthy_quotaTest by code_simp

lemma example_other_not_truthy: "\<not> truthy (quotaTest \<lparr>message = Some (u ''network down'')\<rparr>)"
  unfolding truthy_quotaTest by code_simp

lemma scene_calls:
  "count_list (snd (analyzeScene jp p b img h)) Backup
     = (if isl (fst (executeAnalysis jp (scenePrompt h) img Primary p)) \<and> b \<noteq> None
        then 1 else 0)
   \<and> count_list (snd (analyzeScene jp p b img h)) Primary \<le> 1"
proof (cases "executeAnalysis jp (scenePrompt h) img Primary p")
  case (Pair r c)
  have c: "c = (case p of None \<Rightarrow> [] | Some g \<Rightarrow> [Primary])"
    using executeAnalysis_calls[of jp "scenePrompt h" img Primary p] Pair by simp
  show ?thesis
  proof (cases r)
    case (Inr v)
    with Pair c show ?thesis by (simp add: analyzeScene_primary_ok split: option.splits)
  next
    case (Inl e)
    show ?thesis
    proof (cases b)
      case None
      with Pair Inl c show ?thesis by (simp add: analyzeScene_no_backup split: option.splits)
    next
      case (Some bm)
      obtain r2 c2 where e2: "executeAnalysis jp (scenePrompt h) img Backup (Some bm) = (r2, c2)"
        by (cases "executeAnalysis jp (scenePrompt h) img Backup (Some bm)")
      have c2: "c2 = [Backup]"
        using executeAnalysis_calls[of jp "scenePrompt h" img Backup "Some bm"] e2 by simp
      from Pair Inl c Some e2 c2 show ?thesis
        by (cases r2)
           (simp_all add: analyzeScene_backup_ok analyzeScene_backup_failed split: option.splits)
    qed
  qed
qed

lemma conversation_calls:
  "count_list (snd (conversationResponse p b ip pn vi convos)) Backup
     = (if (case p of None \<Rightarrow> False
            | Some pm \<Rightarrow> convos \<noteq> [] \<and> \<not> ip
                \<and> isl (pm (Prompt (conversationPrompt pn (visitorNameOf vi) (visitorRelationOf vi)
                          (conversationTextOf convos)))))
           \<and> b \<noteq> None then 1 else 0)
   \<and> count_list (snd (conversationResponse p b ip pn vi convos)) Primary \<le> 1"
  by (simp add: conversationResponse_def FORCE_MOCK_AI_def Let_def split: option.splits sum.splits)

lemma executeAnalysis_fails:
  "isl (fst (executeAnalysis jp pr img who p))
     = (case p of
          None \<Rightarrow> False
        | Some generateContent \<Rightarrow>
            (case generateContent (Parts [Text pr, InlineData img (u ''image/jpeg'')]) of
               Inl e \<Rightarrow> True
             | Inr text \<Rightarrow>
                 (case match0 jsonRegex text of
                    None \<Rightarrow> True
                  | Some jsonText \<Rightarrow> isl (jp jsonText))))"
  by (simp add: executeAnalysis_def split: option.splits sum.splits)

lemma example_no_json: "match0 jsonRegex (u ''I see nobody'') = None"
  by code_simp

text \<open>
  C3, as amended. In the scene analysis and in the conversation analysis alike, the backup
  handle is called once if the attempt on the primary tier failed and a backup handle is
  there, and not at all otherwise; the primary handle is called at most once. In the
  conversation analysis the attempt fails exactly when the primary handle fails, so there
  the backup handle is never called when the primary handle answered. In the scene
  analysis the attempt fails when the primary handle fails, and also when it answers with a
  text that holds no JSON object or one that \<open>JSON.parse\<close> rejects: then the backup handle
  is called although the primary handle answered.
\<close>

theorem backup_called_once_iff_primary_attempt_failed:
  "count_list (snd (analyzeScene jp p b img h)) Backup
     = (if (case p of
              None \<Rightarrow> False
            | Some generateContent \<Rightarrow>
                (case generateContent
                        (Parts [Text (scenePrompt h), InlineData img (u ''image/jpeg'')]) of
                   Inl e \<Rightarrow> True
                 | Inr text \<Rightarrow>
                     (case match0 jsonRegex text of
                        None \<Rightarrow> True
                      | Some jsonText \<Rightarrow> isl (jp jsonText))))
           \<and> b \<noteq> None
        then 1 else 0)
   \<and> count_list (snd (analyzeScene jp p b img h)) Primary \<le> 1
   \<and> count_list (snd (conversationResponse p b ip pn vi convos)) Backup
     = (if (case p of None \<Rightarrow> False
            | Some pm \<Rightarrow> convos \<noteq> [] \<and> \<not> ip
                \<and> isl (pm (Prompt (conversationPrompt pn (visitorNameOf vi) (visitorRelationOf vi)
                          (conversationTextOf convos)))))
           \<and> b \<noteq> None then 1 else 0)
   \<and> count_list (snd (conversationResponse p b ip pn vi convos)) Primary \<le> 1"
  using scene_calls[of jp p b img h] conversation_calls[of p b ip pn vi convos]
  unfolding executeAnalysis_fails by blast

theorem backup_called_once_iff_primary_attempt_failed_witness:
  "count_list (snd (analyzeScene parseExample (Some quotaFailure) (Some answering) [] [])) Backup = 1
   \<and> count_list (snd (analyzeScene parseExample (Some answering) (Some quotaFailure) [] [])) Backup = 0
   \<and> count_list (snd (analyzeScene parseExample (Some describing) (Some answering) [] [])) Backup = 1
   \<and> count_list (snd (conversationResponse (Some otherFailure) (Some answering) False (u ''User'')
        None [\<lparr>speaker = u ''You'', entryText = u ''hello'', timestamp = 0\<rparr>])) Backup = 1
   \<and> count_list (snd (conversationResponse (Some describing) (Some otherFailure) False (u ''User'')
        None [\<lparr>speaker = u ''You'', entryText = u ''hello'', timestamp = 0\<rparr>])) Backup = 0"
  using backup_called_once_iff_primary_attempt_failed[of parseExample "Some quotaFailure"
      "Some answering" "[]" "[]" False "u ''User''" None "[]"]
    backup_called_once_iff_primary_attempt_failed[of parseExample "Some answering"
      "Some quotaFailure" "[]" "[]" False "u ''User''" None "[]"]
    backup_called_once_iff_primary_attempt_failed[of parseExample "Some describing"
      "Some answering" "[]" "[]" False "u ''User''" None "[]"]
    backup_called_once_iff_primary_attempt_failed[of parseExample "Some otherFailure"
      "Some answering" "[]" "[]" False "u ''User''" None
      "[\<lparr>speaker = u ''You'', entryText = u ''hello'', timestamp = 0\<rparr>]"]
    backup_called_once_iff_primary_attempt_failed[of parseExample "Some describing"
      "Some otherFailure" "[]" "[]" False "u ''User''" None
      "[\<lparr>speaker = u ''You'', entryText = u ''hello'', timestamp = 0\<rparr>]"]
  by (simp add: quotaFailure_def otherFailure_def answering_def describing_def example_json
      example_no_json parseExample_def)

text \<open>
  C3 as stated fails: the primary handle answers "I see nobody" to the request of the scene
  analysis, it does not fail, and the backup handle is called all the same, because the
  answer holds no JSON object.
\<close>

theorem backup_called_though_primary_answered:
  "describing (Parts [Text (scenePrompt []), InlineData [] (u ''image/jpeg'')])
     = Inr (u ''I see nobody'')
   \<and> count_list (snd (analyzeScene parseExample (Some describing) (Some answering) [] [])) Backup
     = 1"
proof -
  have "executeAnalysis parseExample (scenePrompt []) [] Primary (Some describing)
          = (Inl \<lparr>message = Some (u ''No valid JSON found in response'')\<rparr>, [Primary])"
    by (simp add: executeAnalysis_def describing_def example_no_json)
  from analyzeScene_backup_ok[OF this example_answer_execute]
  show ?thesis by (simp add: describing_def)
qed

text \<open>
  C10. When \<open>analyzeScene\<close> returns through an error path (the primary tier failed and
  there is no backup handle, or the backup tier failed too), the object returned has
  \<open>personIdentified\<close> false, \<open>name\<close> null, \<open>relation\<close> null and an empty \<open>nudges\<close> list.
\<close>

theorem analyzeScene_error_path_result:
  assumes "fst (executeAnalysis jp (scenePrompt h) img Primary p) = Inl e"
      and "b = None \<or> isl (fst (executeAnalysis jp (scenePrompt h) img Backup b))"
  shows "map_option (\<lambda>obj. (obj (u ''personIdentified''), obj (u ''name''), obj (u ''relation''),
            obj (u ''nudges''))) (fst (analyzeScene jp p b img h))
         = Some (Some (JBool False), Some JNull, Some JNull, Some (JArr []))"
proof -
  obtain c where p: "executeAnalysis jp (scenePrompt h) img Primary p = (Inl e, c)"
    using assms(1) by (cases "executeAnalysis jp (scenePrompt h) img Primary p") simp
  show ?thesis
  proof (cases b)
    case None
    show ?thesis
      unfolding None analyzeScene_no_backup[OF p]
      using error_object_fields[OF refl] by simp
  next
    case (Some bm)
    with assms(2) obtain e' c' where
      b: "executeAnalysis jp (scenePrompt h) img Backup (Some bm) = (Inl e', c')"
      by (cases "executeAnalysis jp (scenePrompt h) img Backup (Some bm)") (auto simp: isl_def)
    show ?thesis
      unfolding Some analyzeScene_backup_failed[OF p b]
      using error_object_fields[OF refl] by simp
  qed
qed

theorem analyzeScene_error_path_result_witness:
  "map_option (\<lambda>obj. (obj (u ''personIdentified''), obj (u ''name''), obj (u ''relation''),
        obj (u ''nudges''))) (fst (analyzeScene parseExample (Some quotaFailure) None [] []))
     = Some (Some (JBool False), Some JNull, Some JNull, Some (JArr []))
   \<and> map_option (\<lambda>obj. (obj (u ''personIdentified''), obj (u ''name''), obj (u ''relation''),
        obj (u ''nudges'')))
        (fst (analyzeScene parseExample (Some otherFailure) (Some quotaFailure) [] []))
     = Some (Some (JBool False), Some JNull, Some JNull, Some (JArr []))"
  using analyzeScene_error_path_result[of parseExample "[]" "[]" "Some quotaFailure" _ None]
    analyzeScene_error_path_result[of parseExample "[]" "[]" "Some otherFailure" _ "Some quotaFailure"]
  by (simp add: example_quota_execute example_other_execute)

text \<open>
  C1, as amended. When \<open>analyzeScene\<close> returns through an error path, the flag
  \<open>isQuotaExceeded\<close> of the object returned is truthy if and only if the failure of a tier
  that was tried matched the pattern (the message includes 429, or includes quota in any
  letter case). When the backup tier succeeds after the primary tier failed, the object
  returned is the object the backup tier parsed with \<open>usedBackup\<close> set to true, and
  \<open>analyzeScene\<close> puts no quota flag into it. The first line of the statement says what
  matching the pattern is: \<open>quotaTest\<close> of an error is truthy exactly when the error has a
  message that includes 429 or, in lower case, quota.
\<close>

theorem analyzeScene_quota_flag:
  assumes "fst (executeAnalysis jp (scenePrompt h) img Primary p) = Inl e"
  shows "(\<forall>err. truthy (quotaTest err)
            = (case message err of None \<Rightarrow> False
               | Some m \<Rightarrow> includes_str m (u ''429'') \<or> includes_str (toLowerCase m) (u ''quota'')))
   \<and> (case b of
         None \<Rightarrow>
           map_option (\<lambda>obj. map_option truthy (obj (u ''isQuotaExceeded'')))
             (fst (analyzeScene jp p b img h)) = Some (Some (truthy (quotaTest e)))
       | Some bm \<Rightarrow>
           (case fst (executeAnalysis jp (scenePrompt h) img Backup (Some bm)) of
              Inl e' \<Rightarrow>
                map_option (\<lambda>obj. map_option truthy (obj (u ''isQuotaExceeded'')))
                  (fst (analyzeScene jp p b img h))
                  = Some (Some (truthy (quotaTest e) \<or> truthy (quotaTest e')))
            | Inr r \<Rightarrow>
                fst (analyzeScene jp p b img h)
                  = Some ((spread r)(u ''usedBackup'' \<mapsto> JBool True))))"
proof -
  obtain c where p: "executeAnalysis jp (scenePrompt h) img Primary p = (Inl e, c)"
    using assms(1) by (cases "executeAnalysis jp (scenePrompt h) img Primary p") simp
  show ?thesis
  proof (cases b)
    case None
    show ?thesis
      unfolding None analyzeScene_no_backup[OF p]
      using error_object_fields[OF refl] by (simp add: truthy_quotaTest)
  next
    case (Some bm)
    obtain r' c' where b: "executeAnalysis jp (scenePrompt h) img Backup (Some bm) = (r', c')"
      by (cases "executeAnalysis jp (scenePrompt h) img Backup (Some bm)")
    show ?thesis
    proof (cases r')
      case (Inl e')
      show ?thesis
        unfolding Some analyzeScene_backup_failed[OF p b[unfolded Inl]]
        using error_object_fields[OF refl] b Inl by (simp add: truthy_quotaTest truthy_jsOr)
    next
      case (Inr r)
      show ?thesis
        unfolding Some analyzeScene_backup_ok[OF p b[unfolded Inr]]
        using b Inr by (simp add: truthy_quotaTest)
    qed
  qed
qed

theorem analyzeScene_quota_flag_witness:
  "map_option (\<lambda>obj. map_option truthy (obj (u ''isQuotaExceeded'')))
     (fst (analyzeScene parseExample (Some quotaFailure) None [] [])) = Some (Some True)
   \<and> map_option (\<lambda>obj. map_option truthy (obj (u ''isQuotaExceeded'')))
     (fst (analyzeScene parseExample (Some otherFailure) (Some quotaFailure) [] []))
       = Some (Some True)
   \<and> map_option (\<lambda>obj. map_option truthy (obj (u ''isQuotaExceeded'')))
     (fst (analyzeScene parseExample (Some otherFailure) (Some otherFailure) [] []))
       = Some (Some False)
   \<and> fst (analyzeScene parseExample (Some quotaFailure) (Some answering) [] [])
       = Some ((map_of [(u ''summary'', JStr (u ''Nobody in view''))])
                 (u ''usedBackup'' \<mapsto> JBool True))"
  using analyzeScene_quota_flag[of parseExample "[]" "[]" "Some quotaFailure" _ None, THEN conjunct2]
    analyzeScene_quota_flag[of parseExample "[]" "[]" "Some otherFailure" _ "Some quotaFailure", THEN conjunct2]
    analyzeScene_quota_flag[of parseExample "[]" "[]" "Some otherFailure" _ "Some otherFailure", THEN conjunct2]
    analyzeScene_quota_flag[of parseExample "[]" "[]" "Some quotaFailure" _ "Some answering", THEN conjunct2]
  by (simp add: example_quota_execute example_other_execute example_answer_execute
      example_quota_truthy example_other_not_truthy spread_def)

text \<open>
  C1 as stated fails: the primary tier is refused for quota (message "429 Too Many
  Requests"), the backup tier answers, and the object returned has no \<open>isQuotaExceeded\<close>
  property at all.
\<close>

theorem analyzeScene_quota_flag_dropped:
  "map_option (\<lambda>obj. obj (u ''isQuotaExceeded''))
     (fst (analyzeScene parseExample (Some quotaFailure) (Some answering) [] [])) = Some None
   \<and> truthy (quotaTest \<lparr>message = Some (u ''429 Too Many Requests'')\<rparr>)
   \<and> snd (analyzeScene parseExample (Some quotaFailure) (Some answering) [] []) = [Primary, Backup]"
proof -
  have "((spread (Some (map_of [(u ''summary'', JStr (u ''Nobody in view''))])))
           (u ''usedBackup'' \<mapsto> JBool True)) (u ''isQuotaExceeded'') = None"
    by (simp add: spread_def u_def)
  then show ?thesis
    by (simp add: analyzeScene_backup_ok[OF example_quota_execute example_answer_execute]
        example_quota_truthy)
qed


subsection \<open>Dates\<close>

lemma MonthFromTime_range: "0 \<le> MonthFromTime t \<and> MonthFromTime t \<le> 11"
proof -
  have "length (filter P [1, 2, 3, 4, 5, 6, 7, 8, 9, 10, 11::int]) \<le> 11" for P
    using length_filter_le[of P "[1, 2, 3, 4, 5, 6, 7, 8, 9, 10, 11::int]"] by simp
  then show ?thesis unfolding MonthFromTime_def by simp
qed

lemma setDate_getDate: "setDate t (getDate t + k) = t + k * msPerDay"
proof -
  let ?m = "MonthFromTime t"
  have m: "?m div 12 = 0" "?m mod 12 = ?m"
    using MonthFromTime_range[of t] by simp_all
  have "MakeDay (YearFromTime t) ?m (DateFromTime t + k) = Day t + k"
    by (simp add: MakeDay_def Let_def m DateFromTime_def DayWithinYear_def)
  then have "setDate t (getDate t + k) = (t div msPerDay + k) * msPerDay + t mod msPerDay"
    by (simp add: setDate_def getDate_def MakeDate_def Day_def TimeWithinDay_def)
  also have "\<dots> = t + k * msPerDay"
    by (simp add: algebra_simps)
  finally show ?thesis .
qed

lemma getDay_add_days: "getDay (t + k * msPerDay) = (getDay t + k) mod 7"
proof -
  have "(t + k * msPerDay) div msPerDay = t div msPerDay + k"
    by (simp add: msPerDay_def)
  then show ?thesis
    by (simp add: getDay_def WeekDay_def Day_def mod_simps algebra_simps)
qed

lemma getDay_range: "0 \<le> getDay t \<and> getDay t < 7"
  by (simp add: getDay_def WeekDay_def)

lemma day_after_tomorrow_includes:
  "\<not> includes_str (toLowerCase (u ''day after tomorrow'')) (u ''today'')
   \<and> includes_str (toLowerCase (u ''day after tomorrow'')) (u ''tomorrow'')"
  by code_simp

lemma startsWith_iff: "startsWith s p \<longleftrightarrow> (\<exists>post. s = p @ post)"
  by (induction s p rule: startsWith.induct) auto

lemma includes_str_iff: "includes_str s p \<longleftrightarrow> (\<exists>pre post. s = pre @ p @ post)"
proof (induction s)
  case Nil
  show ?case by auto
next
  case (Cons c cs)
  show ?case
  proof
    assume "includes_str (c # cs) p"
    then consider "startsWith (c # cs) p" | "includes_str cs p" by auto
    then show "\<exists>pre post. c # cs = pre @ p @ post"
    proof cases
      case 1
      then obtain post where "c # cs = p @ post" using startsWith_iff by blast
      then have "c # cs = [] @ p @ post" by simp
      then show ?thesis by blast
    next
      case 2
      with Cons.IH obtain pre post where "cs = pre @ p @ post" by blast
      then have "c # cs = (c # pre) @ p @ post" by simp
      then show ?thesis by blast
    qed
  next
    assume "\<exists>pre post. c # cs = pre @ p @ post"
    then obtain pre post where e: "c # cs = pre @ p @ post" by blast
    show "includes_str (c # cs) p"
    proof (cases pre)
      case Nil
      with e have "startsWith (c # cs) p" using startsWith_iff by auto
      then show ?thesis by simp
    next
      case (Cons a pre')
      with e have "cs = pre' @ p @ post" by simp
      with Cons.IH have "includes_str cs p" by blast
      then show ?thesis by simp
    qed
  qed
qed

lemma includes_str_tail: "includes_str s (a @ b) \<Longrightarrow> includes_str s b"
proof -
  assume "includes_str s (a @ b)"
  then obtain pre post where "s = pre @ (a @ b) @ post" using includes_str_iff by blast
  then have "s = (pre @ a) @ b @ post" by simp
  then show ?thesis using includes_str_iff by blast
qed

lemma day_after_tomorrow_branch_dead:
  "includes_str lower (u ''day after tomorrow'') \<Longrightarrow> includes_str lower (u ''tomorrow'')"
proof -
  have "u ''day after tomorrow'' = u ''day after '' @ u ''tomorrow''" by (simp add: u_def)
  then show "includes_str lower (u ''day after tomorrow'') \<Longrightarrow> includes_str lower (u ''tomorrow'')"
    using includes_str_tail by metis
qed

text \<open>
  C2. The claim is that "day after tomorrow" resolves to \<open>now\<close> plus two days, its pattern
  being tried before "tomorrow". In the source the test for "tomorrow" comes first and the
  text includes "tomorrow", so the branch of "day after tomorrow" is never reached: for
  every \<open>now\<close> the result is \<open>now\<close> plus one day, and so it is for every text that
  includes "day after tomorrow" (and not "today", which is tested before both).
\<close>

theorem day_after_tomorrow_is_one_day:
  "parseDateFromText dateParse now (u ''day after tomorrow'') = now + 1 * msPerDay
   \<and> parseDateFromText dateParse now (u ''day after tomorrow'') \<noteq> now + 2 * msPerDay
   \<and> (includes_str (toLowerCase text) (u ''day after tomorrow'') \<longrightarrow>
        parseDateFromText dateParse now text
          = (if includes_str (toLowerCase text) (u ''today'') then now else now + 1 * msPerDay))"
  using day_after_tomorrow_includes day_after_tomorrow_branch_dead[of "toLowerCase text"]
  by (simp add: parseDateFromText_def Let_def setDate_getDate[of now 1, simplified] msPerDay_def)

lemma day_after_tomorrow_at_noon:
  "includes_str (toLowerCase (u ''The day after tomorrow at noon'')) (u ''day after tomorrow'')
   \<and> \<not> includes_str (toLowerCase (u ''The day after tomorrow at noon'')) (u ''today'')"
  by code_simp

theorem day_after_tomorrow_is_one_day_witness:
  "parseDateFromText (\<lambda>t. None) 1771117200000 (u ''The day after tomorrow at noon'')
     = 1771117200000 + 86400000"
  using day_after_tomorrow_is_one_day[of "\<lambda>t. None" 1771117200000
      "u ''The day after tomorrow at noon''"] day_after_tomorrow_at_noon
  by (simp add: msPerDay_def)

lemma includes_sunday:
  "\<not> includes_str (u ''sunday'') (u ''today'')
   \<and> \<not> includes_str (u ''sunday'') (u ''tomorrow'')
   \<and> \<not> includes_str (u ''sunday'') (u ''day after tomorrow'')
   \<and> \<not> includes_str (u ''sunday'') (u ''next week'')
   \<and> \<not> includes_str (u ''sunday'') (u ''next month'')
   \<and> includes_str (u ''sunday'') (u ''sunday'')"
  by code_simp

lemma includes_monday:
  "\<not> includes_str (u ''monday'') (u ''today'')
   \<and> \<not> includes_str (u ''monday'') (u ''tomorrow'')
   \<and> \<not> includes_str (u ''monday'') (u ''day after tomorrow'')
   \<and> \<not> includes_str (u ''monday'') (u ''next week'')
   \<and> \<not> includes_str (u ''monday'') (u ''next month'')
   \<and> \<not> includes_str (u ''monday'') (u ''sunday'')
   \<and> includes_str (u ''monday'') (u ''monday'')"
  by code_simp

lemma includes_tuesday:
  "\<not> includes_str (u ''tuesday'') (u ''today'')
   \<and> \<not> includes_str (u ''tuesday'') (u ''tomorrow'')
   \<and> \<not> includes_str (u ''tuesday'') (u ''day after tomorrow'')
   \<and> \<not> includes_str (u ''tuesday'') (u ''next week'')
   \<and> \<not> includes_str (u ''tuesday'') (u ''next month'')
   \<and> \<not> includes_str (u ''tuesday'') (u ''sunday'')
   \<and> \<not> includes_str (u ''tuesday'') (u ''monday'')
   \<and> includes_str (u ''tuesday'') (u ''tuesday'')"
  by code_simp

lemma includes_wednesday:
  "\<not> includes_str (u ''wednesday'') (u ''today'')
   \<and> \<not> includes_str (u ''wednesday'') (u ''tomorrow'')
   \<and> \<not> includes_str (u ''wednesday'') (u ''day after tomorrow'')
   \<and> \<not> includes_str (u ''wednesday'') (u ''next week'')
   \<and> \<not> includes_str (u ''wednesday'') (u ''next month'')
   \<and> \<not> includes_str (u ''wednesday'') (u ''sunday'')
   \<and> \<not> includes_str (u ''wednesday'') (u ''monday'')
   \<and> \<not> includes_str (u ''wednesday'') (u ''tuesday'')
   \<and> includes_str (u ''wednesday'') (u ''wednesday'')"
  by code_simp

lemma includes_thursday:
  "\<not> includes_str (u ''thursday'') (u ''today'')
   \<and> \<not> includes_str (u ''thursday'') (u ''tomorrow'')
   \<and> \<not> includes_str (u ''thursday'') (u ''day after tomorrow'')
   \<and> \<not> includes_str (u ''thursday'') (u ''next week'')
   \<and> \<not> includes_str (u ''thursday'') (u ''next month'')
   \<and> \<not> includes_str (u ''thursday'') (u ''sunday'')
   \<and> \<not> includes_str (u ''thursday'') (u ''monday'')
   \<and> \<not> includes_str (u ''thursday'') (u ''tuesday'')
   \<and> \<not> includes_str (u ''thursday'') (u ''wednesday'')
   \<and> includes_str (u ''thursday'') (u ''thursday'')"
  by code_simp

lemma includes_friday:
  "\<not> includes_str (u ''friday'') (u ''today'')
   \<and> \<not> includes_str (u ''friday'') (u ''tomorrow'')
   \<and> \<not> includes_str (u ''friday'') (u ''day after tomorrow'')
   \<and> \<not> includes_str (u ''friday'') (u ''next week'')
   \<and> \<not> includes_str (u ''friday'') (u ''next month'')
   \<and> \<not> includes_str (u ''friday'') (u ''sunday'')
   \<and> \<not> includes_str (u ''friday'') (u ''monday'')
   \<and> \<not> includes_str (u ''friday'') (u ''tuesday'')
   \<and> \<not> includes_str (u ''friday'') (u ''wednesday'')
   \<and> \<not> includes_str (u ''friday'') (u ''thursday'')
   \<and> includes_str (u ''friday'') (u ''friday'')"
  by code_simp

lemma includes_saturday:
  "\<not> includes_str (u ''saturday'') (u ''today'')
   \<and> \<not> includes_str (u ''saturday'') (u ''tomorrow'')
   \<and> \<not> includes_str (u ''saturday'') (u ''day after tomorrow'')
   \<and> \<not> includes_str (u ''saturday'') (u ''next week'')
   \<and> \<not> includes_str (u ''saturday'') (u ''next month'')
   \<and> \<not> includes_str (u ''saturday'') (u ''sunday'')
   \<and> \<not> includes_str (u ''saturday'') (u ''monday'')
   \<and> \<not> includes_str (u ''saturday'') (u ''tuesday'')
   \<and> \<not> includes_str (u ''saturday'') (u ''wednesday'')
   \<and> \<not> includes_str (u ''saturday'') (u ''thursday'')
   \<and> \<not> includes_str (u ''saturday'') (u ''friday'')
   \<and> includes_str (u ''saturday'') (u ''saturday'')"
  by code_simp

lemmas dayNames_includes =
  includes_sunday includes_monday includes_tuesday includes_wednesday includes_thursday includes_friday includes_saturday

lemma below_seven: "i < 7 \<Longrightarrow> i \<in> {0, 1, 2, 3, 4, 5, 6::nat}"
  by auto

lemma parse_weekday:
  assumes "i < 7" and "toLowerCase text = dayNames ! i"
  shows "parseDateFromText dateParse now text
           = now + (if int i - getDay now \<le> 0 then int i - getDay now + 7
                    else int i - getDay now) * msPerDay"
  using below_seven[OF assms(1)] assms(2)
  by (elim insertE emptyE)
     (simp_all add: parseDateFromText_def Let_def dayNames_def dayNames_includes setDate_getDate)

text \<open>
  C5. For every \<open>now\<close>, a text that is a weekday name (in any letter case) resolves to
  \<open>now\<close> plus \<open>k\<close> days with \<open>k\<close> from 1 to 7: the day reached is the named weekday, no
  day strictly between \<open>now\<close> and it is, and when \<open>now\<close> itself is the named weekday
  the result is \<open>now\<close> plus 7 days.
\<close>

theorem weekday_resolves_to_next_occurrence:
  assumes "i < 7" and "toLowerCase text = dayNames ! i"
  shows "\<exists>k. 1 \<le> k \<and> k \<le> 7
           \<and> parseDateFromText dateParse now text = now + k * msPerDay
           \<and> getDay (now + k * msPerDay) = int i
           \<and> (\<forall>j. 1 \<le> j \<and> j < k \<longrightarrow> getDay (now + j * msPerDay) \<noteq> int i)
           \<and> (getDay now = int i \<longrightarrow> k = 7)"
proof -
  let ?g = "getDay now"
  let ?k = "if int i - ?g \<le> 0 then int i - ?g + 7 else int i - ?g"
  have g: "0 \<le> ?g" "?g < 7" using getDay_range[of now] by simp_all
  have i: "int i < 7" using assms(1) by simp
  have k: "1 \<le> ?k" "?k \<le> 7" using g i by auto
  have hit: "(?g + ?k) mod 7 = int i" using g i by auto
  have miss: "(?g + j) mod 7 \<noteq> int i" if "1 \<le> j" "j < ?k" for j
  proof (cases "int i - ?g \<le> 0")
    case True
    with that g i have "?g + j < int i + 7" "int i < ?g + j" by auto
    then show ?thesis using i by presburger
  next
    case False
    with that g i have "?g + j < int i" "0 \<le> ?g + j" by auto
    then show ?thesis using i by presburger
  qed
  show ?thesis
    apply (rule exI[of _ ?k])
    using k hit miss parse_weekday[OF assms, of dateParse now]
    by (auto simp: getDay_add_days)
qed

theorem weekday_resolves_to_next_occurrence_witness:
  "getDay (20500 * 86400000 + 32400000) = 1
   \<and> parseDateFromText (\<lambda>t. None) (20500 * 86400000 + 32400000) (u ''Monday'')
       = 20507 * 86400000 + 32400000"
proof -
  have l: "toLowerCase (u ''Monday'') = dayNames ! 1" by code_simp
  have g: "getDay (20500 * 86400000 + 32400000) = 1"
    by (simp add: getDay_def WeekDay_def Day_def msPerDay_def)
  from weekday_resolves_to_next_occurrence[of 1 "u ''Monday''" "\<lambda>t. None" "20500 * 86400000 + 32400000"] l g
  show ?thesis by (auto simp: msPerDay_def)
qed

lemma dateInYear_form:
  "dateInYear now y mt dt = Some d \<Longrightarrow>
   \<exists>mo dy. 0 \<le> mo \<and> mo \<le> 11 \<and> 1 \<le> dy \<and> dy \<le> 31
     \<and> (d = newDate y mo dy \<or> d = newDate (y + 1) mo dy)"
proof -
  assume a: "dateInYear now y mt dt = Some d"
  have months_range: "map_of months k = Some mo \<Longrightarrow> 0 \<le> mo \<and> mo \<le> 11" for k mo
    by (auto simp: months_def split: if_splits)
  from a show ?thesis
    by (auto simp: dateInYear_def Let_def split: option.splits if_splits dest!: months_range)
qed


lemma dayNameLoop_form:
  "dayNameLoop lower now names i = Some d \<Longrightarrow> 0 \<le> i \<Longrightarrow> i + int (length names) \<le> 7 \<Longrightarrow>
   \<exists>k. 1 \<le> k \<and> k \<le> 7 \<and> d = now + k * msPerDay"
proof (induction names arbitrary: i)
  case Nil
  then show ?case by simp
next
  case (Cons name names)
  show ?case
  proof (cases "includes_str lower name")
    case True
    let ?k = "if i - getDay now \<le> 0 then i - getDay now + 7 else i - getDay now"
    from True Cons.prems(1) have "d = now + ?k * msPerDay"
      by (simp add: Let_def setDate_getDate)
    moreover have "1 \<le> ?k \<and> ?k \<le> 7"
      using getDay_range[of now] Cons.prems(2,3) by auto
    ultimately show ?thesis by blast
  next
    case False
    with Cons.prems have "dayNameLoop lower now names (i + 1) = Some d" by simp
    then show ?thesis using Cons.IH[of "i + 1"] Cons.prems(2,3) by simp
  qed
qed

lemma dayNameLoop_none:
  "\<forall>name \<in> set names. \<not> includes_str lower name \<Longrightarrow> dayNameLoop lower now names i = None"
  by (induction names arbitrary: i) simp_all

lemma monthDayBranch_form:
  "monthDayBranch now y text = Some d \<Longrightarrow>
   \<exists>mo dy. 0 \<le> mo \<and> mo \<le> 11 \<and> 1 \<le> dy \<and> dy \<le> 31
     \<and> (d = newDate y mo dy \<or> d = newDate (y + 1) mo dy)"
proof -
  assume "monthDayBranch now y text = Some d"
  then obtain g1 g2 where "dateInYear now y g1 g2 = Some d"
    by (auto simp: monthDayBranch_def split: option.splits)
  then show ?thesis by (rule dateInYear_form)
qed

lemma dayMonthBranch_form:
  "dayMonthBranch now y text = Some d \<Longrightarrow>
   \<exists>mo dy. 0 \<le> mo \<and> mo \<le> 11 \<and> 1 \<le> dy \<and> dy \<le> 31
     \<and> (d = newDate y mo dy \<or> d = newDate (y + 1) mo dy)"
proof -
  assume "dayMonthBranch now y text = Some d"
  then obtain g1 g2 where "dateInYear now y g1 g2 = Some d"
    by (auto simp: dayMonthBranch_def split: option.splits)
  then show ?thesis by (rule dateInYear_form)
qed

lemma parseDateFromText_forms:
  "parseDateFromText dateParse now text = now
   \<or> (\<exists>k. 1 \<le> k \<and> k \<le> 7 \<and> parseDateFromText dateParse now text = now + k * msPerDay)
   \<or> parseDateFromText dateParse now text = setMonth now (getMonth now + 1)
   \<or> (\<exists>mo dy. 0 \<le> mo \<and> mo \<le> 11 \<and> 1 \<le> dy \<and> dy \<le> 31
         \<and> (parseDateFromText dateParse now text = newDate (getFullYear now) mo dy
            \<or> parseDateFromText dateParse now text = newDate (getFullYear now + 1) mo dy))
   \<or> dateParse text = Some (parseDateFromText dateParse now text)"
proof -
  let ?lower = "toLowerCase text"
  let ?r = "parseDateFromText dateParse now text"
  consider (kw) "includes_str ?lower (u ''today'') \<or> includes_str ?lower (u ''tomorrow'')
        \<or> includes_str ?lower (u ''day after tomorrow'') \<or> includes_str ?lower (u ''next week'')
        \<or> includes_str ?lower (u ''next month'')"
    | (rest) "\<not> includes_str ?lower (u ''today'')" "\<not> includes_str ?lower (u ''tomorrow'')"
        "\<not> includes_str ?lower (u ''day after tomorrow'')" "\<not> includes_str ?lower (u ''next week'')"
        "\<not> includes_str ?lower (u ''next month'')"
    by blast
  then show ?thesis
  proof cases
    case kw
    have one: "\<exists>k. 1 \<le> k \<and> k \<le> 7 \<and> now + c * msPerDay = now + k * msPerDay"
      if "1 \<le> c" "c \<le> 7" for c :: int
      using that by blast
    from kw one[of 1] one[of 2] one[of 7] show ?thesis
      by (auto simp: parseDateFromText_def Let_def setDate_getDate)
  next
    case rest
    show ?thesis
    proof (cases "dayNameLoop ?lower now dayNames 0")
      case (Some d)
      with rest have "?r = d" by (simp add: parseDateFromText_def Let_def)
      moreover from dayNameLoop_form[OF Some] have "\<exists>k. 1 \<le> k \<and> k \<le> 7 \<and> d = now + k * msPerDay"
        by (simp add: dayNames_def)
      ultimately show ?thesis by blast
    next
      case None
      show ?thesis
      proof (cases "monthDayBranch now (getFullYear now) text")
        case (Some d)
        with rest None have "?r = d" by (simp add: parseDateFromText_def Let_def)
        with monthDayBranch_form[OF Some] show ?thesis by blast
      next
        case md: None
        show ?thesis
        proof (cases "dayMonthBranch now (getFullYear now) text")
          case (Some d)
          with rest None md have "?r = d" by (simp add: parseDateFromText_def Let_def)
          with dayMonthBranch_form[OF Some] show ?thesis by blast
        next
          case dm: None
          with rest None md show ?thesis
            by (cases "dateParse text") (simp_all add: parseDateFromText_def Let_def)
        qed
      qed
    qed
  qed
qed

text \<open>
  C6. \<open>parseDateFromText\<close> has no failing path: a text that includes none of the relative
  keywords and no weekday name, that neither the "Month Day" nor the "Day Month" expression
  matches and that the platform does not parse as a date, resolves to \<open>now\<close>; and
  whatever the text, the value returned is \<open>now\<close>, or \<open>now\<close> plus 1 to 7 days, or
  \<open>now\<close> with the month advanced by one, or a date of this year or the next built from a
  month from 0 to 11 and a day from 1 to 31, or the date the platform parsed.
\<close>

theorem parseDateFromText_total_with_fallback:
  "(\<not> includes_str (toLowerCase text) (u ''today'')
      \<and> \<not> includes_str (toLowerCase text) (u ''tomorrow'')
      \<and> \<not> includes_str (toLowerCase text) (u ''day after tomorrow'')
      \<and> \<not> includes_str (toLowerCase text) (u ''next week'')
      \<and> \<not> includes_str (toLowerCase text) (u ''next month'')
      \<and> (\<forall>name \<in> set dayNames. \<not> includes_str (toLowerCase text) name)
      \<and> match_re monthDayRegex text = None
      \<and> match_re dayMonthRegex text = None
      \<and> dateParse text = None
    \<longrightarrow> parseDateFromText dateParse now text = now)
   \<and> (parseDateFromText dateParse now text = now
       \<or> (\<exists>k. 1 \<le> k \<and> k \<le> 7 \<and> parseDateFromText dateParse now text = now + k * msPerDay)
       \<or> parseDateFromText dateParse now text = setMonth now (getMonth now + 1)
       \<or> (\<exists>mo dy. 0 \<le> mo \<and> mo \<le> 11 \<and> 1 \<le> dy \<and> dy \<le> 31
             \<and> (parseDateFromText dateParse now text = newDate (getFullYear now) mo dy
                \<or> parseDateFromText dateParse now text = newDate (getFullYear now + 1) mo dy))
       \<or> dateParse text = Some (parseDateFromText dateParse now text))"
proof (rule conjI)
  show "\<not> includes_str (toLowerCase text) (u ''today'')
      \<and> \<not> includes_str (toLowerCase text) (u ''tomorrow'')
      \<and> \<not> includes_str (toLowerCase text) (u ''day after tomorrow'')
      \<and> \<not> includes_str (toLowerCase text) (u ''next week'')
      \<and> \<not> includes_str (toLowerCase text) (u ''next month'')
      \<and> (\<forall>name \<in> set dayNames. \<not> includes_str (toLowerCase text) name)
      \<and> match_re monthDayRegex text = None
      \<and> match_re dayMonthRegex text = None
      \<and> dateParse text = None
    \<longrightarrow> parseDateFromText dateParse now text = now"
    by (simp add: parseDateFromText_def Let_def dayNameLoop_none monthDayBranch_def
        dayMonthBranch_def)
qed (rule parseDateFromText_forms)

lemma plumber_no_pattern:
  "\<not> includes_str (toLowerCase (u ''call the plumber'')) (u ''today'')
   \<and> \<not> includes_str (toLowerCase (u ''call the plumber'')) (u ''tomorrow'')
   \<and> \<not> includes_str (toLowerCase (u ''call the plumber'')) (u ''day after tomorrow'')
   \<and> \<not> includes_str (toLowerCase (u ''call the plumber'')) (u ''next week'')
   \<and> \<not> includes_str (toLowerCase (u ''call the plumber'')) (u ''next month'')
   \<and> (\<forall>name \<in> set dayNames. \<not> includes_str (toLowerCase (u ''call the plumber'')) name)
   \<and> match_re monthDayRegex (u ''call the plumber'') = None
   \<and> match_re dayMonthRegex (u ''call the plumber'') = None"
  by code_simp

theorem parseDateFromText_total_with_fallback_witness:
  "parseDateFromText (\<lambda>t. None) 1771117200000 (u ''call the plumber'') = 1771117200000"
  using parseDateFromText_total_with_fallback[of "u ''call the plumber''" "\<lambda>t. None" 1771117200000]
    plumber_no_pattern
  by simp

subsection \<open>Conversation turns\<close>

lemma relabelVisitor_frame:
  "map entryText (relabelVisitor v cs) = map entryText cs
   \<and> map timestamp (relabelVisitor v cs) = map timestamp cs
   \<and> length (relabelVisitor v cs) = length cs"
  by (simp add: relabelVisitor_def split: option.splits)

lemma correctLines_frame:
  "map timestamp (correctLines ls idx cs) = map timestamp cs
   \<and> length (correctLines ls idx cs) = length cs"
proof (induction ls arbitrary: idx cs)
  case Nil
  show ?case by simp
next
  case (Cons l ls)
  have upd: "map timestamp (cs[idx := (cs ! idx)\<lparr>speaker := a, entryText := b\<rparr>]) = map timestamp cs"
    if "idx < length cs" for a b
    using that by (simp add: map_update list_update_same_conv)
  show ?case
    using Cons.IH upd by (simp split: option.splits)
qed

lemma correctTranscript_frame:
  "map timestamp (correctTranscript response cs) = map timestamp cs
   \<and> length (correctTranscript response cs) = length cs"
  by (simp add: correctTranscript_def correctLines_frame split: option.splits)

lemma example_correction:
  "correctTranscript ([10] @ u ''SUMMARY: A short visit.'' @ [10] @ u ''TRANSCRIPT:'' @ [10]
        @ u ''Visitor: '' @ [34] @ u ''Hello there'' @ [34])
     [\<lparr>speaker = u ''You'', entryText = u ''hello their'', timestamp = 1771117200000\<rparr>]
   = [\<lparr>speaker = u ''Visitor'', entryText = u ''Hello there'', timestamp = 1771117200000\<rparr>]"
  by code_simp

text \<open>
  C8, as amended. The renaming of the visitor changes the speaker label of a turn only:
  the text and the timestamp of every turn stay. The transcript correction may overwrite
  the speaker and the text of a turn (that is what it is for), never its timestamp; neither
  of the two adds or drops a turn.
\<close>

theorem recorded_turns_keep_timestamp:
  "map entryText (relabelVisitor v cs) = map entryText cs
   \<and> map timestamp (relabelVisitor v cs) = map timestamp cs
   \<and> length (relabelVisitor v cs) = length cs
   \<and> map timestamp (correctTranscript response cs) = map timestamp cs
   \<and> length (correctTranscript response cs) = length cs"
  using relabelVisitor_frame[of v cs] correctTranscript_frame[of response cs] by blast

theorem recorded_turns_keep_timestamp_witness:
  "map entryText (relabelVisitor (Some \<lparr>name = u ''Ann'', relation = u ''daughter''\<rparr>)
      [\<lparr>speaker = u ''Visitor'', entryText = u ''hello'', timestamp = 1771117200000\<rparr>])
     = [u ''hello'']
   \<and> map timestamp (correctTranscript (u ''TRANSCRIPT: nothing'')
      [\<lparr>speaker = u ''Visitor'', entryText = u ''hello'', timestamp = 1771117200000\<rparr>])
     = [1771117200000]"
  using recorded_turns_keep_timestamp[of "Some \<lparr>name = u ''Ann'', relation = u ''daughter''\<rparr>"
      "[\<lparr>speaker = u ''Visitor'', entryText = u ''hello'', timestamp = 1771117200000\<rparr>]"
      "u ''TRANSCRIPT: nothing''"]
  by simp

text \<open>
  C8 as stated fails: the response corrects the first turn, and its text is overwritten
  (from "hello their" to "Hello there") together with its speaker.
\<close>

theorem transcript_correction_overwrites_text:
  "map entryText (correctTranscript ([10] @ u ''SUMMARY: A short visit.'' @ [10]
        @ u ''TRANSCRIPT:'' @ [10] @ u ''Visitor: '' @ [34] @ u ''Hello there'' @ [34])
     [\<lparr>speaker = u ''You'', entryText = u ''hello their'', timestamp = 1771117200000\<rparr>])
   = [u ''Hello there'']"
  using example_correction by simp

subsection \<open>Saving the mentions of a batch\<close>

lemma count_list_map_insort_key:
  "count_list (map g (insort_key f x xs)) y = count_list (map g (x # xs)) y"
  by (induction xs) auto

lemma keys_step:
  "ident ` set (case addDate r db of Inl e \<Rightarrow> db | Inr db' \<Rightarrow> db') = insert (ident r) (ident ` set db)"
  by (auto simp: addDate_def set_insort_key)

lemma saveLines_keys:
  "snd (saveLines dateParse now ids ty ls (db, n)) = n + length ls
   \<and> ident ` set (fst (saveLines dateParse now ids ty ls (db, n)))
        = ident ` set db \<union> ids ` {n ..< n + length ls}"
proof (induction ls arbitrary: db n)
  case Nil
  show ?case by simp
next
  case (Cons l ls)
  let ?d = "parseDateFromText dateParse now (cleanLine l)"
  let ?r = "\<lparr>ident = ids n, date = ?d, event = cleanLine l, eventType = ty, createdAt = ?d\<rparr>"
  let ?db = "case addDate ?r db of Inl e \<Rightarrow> db | Inr db' \<Rightarrow> db'"
  have step: "saveLines dateParse now ids ty (l # ls) (db, n)
                = saveLines dateParse now ids ty ls (?db, n + 1)"
    by (simp add: Let_def)
  have keys: "ident ` set ?db = insert (ids n) (ident ` set db)"
    using keys_step[where r="?r" and db=db] by simp
  have range: "{n ..< n + length (l # ls)} = insert n {n + 1 ..< n + 1 + length ls}"
    by auto
  show ?case
    unfolding step range using Cons.IH[of ?db "n + 1"] keys by auto
qed

lemma saveLines_counts:
  "distinct (map ids [n ..< n + length ls]) \<Longrightarrow>
   ids ` {n ..< n + length ls} \<inter> ident ` set db = {} \<Longrightarrow>
   count_list (map event (fst (saveLines dateParse now ids ty ls (db, n)))) L
     = count_list (map event db) L + count_list (map cleanLine ls) L"
proof (induction ls arbitrary: db n)
  case Nil
  show ?case by simp
next
  case (Cons l ls)
  let ?d = "parseDateFromText dateParse now (cleanLine l)"
  let ?r = "\<lparr>ident = ids n, date = ?d, event = cleanLine l, eventType = ty, createdAt = ?d\<rparr>"
  have upt: "[n ..< n + length (l # ls)] = n # [n + 1 ..< n + 1 + length ls]"
    using upt_conv_Cons[of n "n + length (l # ls)"] by simp
  have range: "{n ..< n + length (l # ls)} = insert n {n + 1 ..< n + 1 + length ls}"
    by auto
  from Cons.prems(2) have fresh: "ids n \<notin> ident ` set db"
    unfolding range by auto
  then have add: "addDate ?r db = Inr (insort_key ident ?r db)"
    by (simp add: addDate_def)
  have step: "saveLines dateParse now ids ty (l # ls) (db, n)
                = saveLines dateParse now ids ty ls (insort_key ident ?r db, n + 1)"
    by (simp add: Let_def add)
  from Cons.prems(1) have d: "distinct (map ids [n + 1 ..< n + 1 + length ls])"
    and n: "ids n \<notin> ids ` {n + 1 ..< n + 1 + length ls}"
    unfolding upt by auto
  from Cons.prems(2) n
  have "ids ` {n + 1 ..< n + 1 + length ls} \<inter> ident ` set (insort_key ident ?r db) = {}"
    unfolding range by (auto simp: set_insort_key)
  from Cons.IH[OF d this] show ?case
    unfolding step by (simp add: count_list_map_insort_key)
qed

lemma saveLines_held_id:
  "ids n \<in> ident ` set db \<Longrightarrow>
   saveLines dateParse now ids ty (l # ls) (db, n) = saveLines dateParse now ids ty ls (db, n + 1)"
  by (simp add: Let_def addDate_def)

lemma distinct_unique: "distinct (unique xs)"
  by (induction xs) auto

lemma set_unique: "set (unique xs) = set xs"
  by (induction xs) auto

lemma mergeDates_distinct:
  "matchAll dateRegex conversationText = Some ms \<Longrightarrow>
   \<exists>ds. distinct ds \<and> set (map trim ms) \<subseteq> set ds
      \<and> mergeDates conversationText dm
          = (if join (u '', '') ds = [] then dm else Some (join (u '', '') ds))"
proof -
  assume m: "matchAll dateRegex conversationText = Some ms"
  let ?reg = "unique (map trim ms)"
  show ?thesis
  proof (cases dm)
    case None
    with m have "mergeDates conversationText dm
        = (if join (u '', '') ?reg = [] then dm else Some (join (u '', '') ?reg))"
      by (simp add: mergeDates_def Let_def)
    then show ?thesis using distinct_unique[of "map trim ms"] set_unique[of "map trim ms"] by blast
  next
    case (Some g)
    show ?thesis
    proof (cases "includes_str (toLowerCase (trim g)) (u ''none'')")
      case True
      with m Some have "mergeDates conversationText dm
          = (if join (u '', '') ?reg = [] then dm else Some (join (u '', '') ?reg))"
        by (simp add: mergeDates_def Let_def)
      then show ?thesis
        using distinct_unique[of "map trim ms"] set_unique[of "map trim ms"] by blast
    next
      case False
      let ?all = "unique (filter (\<lambda>d. d \<noteq> []) (map trim (split_re (lit '','') (trim g))) @ ?reg)"
      from False m Some have "mergeDates conversationText dm
          = (if join (u '', '') ?all = [] then dm else Some (join (u '', '') ?all))"
        by (simp add: mergeDates_def Let_def)
      moreover have "distinct ?all" by (rule distinct_unique)
      moreover have "set (map trim ms) \<subseteq> set ?all" by (simp add: set_unique)
      ultimately show ?thesis by blast
    qed
  qed
qed


lemma example_lines:
  "map cleanLine [u ''Lunch with Ann'', u '' Lunch with Ann'']
     = [u ''Lunch with Ann'', u ''Lunch with Ann'']"
  by code_simp

lemma example_dated_saved:
  "map event (fst (saveFromResponse (\<lambda>t. None) 1771117200000 exampleIds exampleResponse
       exampleDatedConversationText ([], 0)))
     = [u ''Lunch with Ann'', u ''Feb 16'']"
  by code_simp

lemma example_dated_matches:
  "matchAll dateRegex exampleDatedConversationText = Some [u ''Feb 16'']"
  by code_simp




subsection \<open>Tasks in a speech result\<close>

text \<open>
  C7. On the transcript "Remind me to take my pills and see the doctor on Friday" the
  extraction of \<open>handleSpeechResult\<close> yields an action mention and a date mention, each
  handed on behind the marker of its kind and a space: the action mention is "take my
  pills" and the date mention is "see the doctor on Friday", no more and no less. The
  extraction of \<open>toggleListening\<close>, on a recording whose one turn is that transcript,
  yields the same two.
\<close>

theorem speech_example_tasks:
  "extractTasks (u ''Remind me to take my pills and see the doctor on Friday'')
     = Some [actionMarker @ u '' '' @ u ''take my pills'',
             dateMarker @ u '' '' @ u ''see the doctor on Friday'']
   \<and> tasksOnStop [\<lparr>speaker = u ''You'',
         entryText = u ''Remind me to take my pills and see the doctor on Friday'',
         timestamp = 1771117200000\<rparr>]
     = Some [actionMarker @ u '' '' @ u ''take my pills'',
             dateMarker @ u '' '' @ u ''see the doctor on Friday'']"
  by code_simp

subsection \<open>The model names\<close>

text \<open>
  C9. For every API key, the handle asked for under the name gemini-3-flash-preview and the
  one asked for under gemini-2.5-flash-lite are the same handle, on the model
  gemini-1.5-flash: the primary and the backup tier are instances of one model.
\<close>

theorem getGeminiModel_same_model:
  "getGeminiModel key (Some (u ''gemini-3-flash-preview''))
     = getGeminiModel key (Some (u ''gemini-2.5-flash-lite''))
   \<and> model (getGeminiModel key (Some (u ''gemini-3-flash-preview''))) = u ''gemini-1.5-flash''
   \<and> model (getGeminiModel key (Some (u ''gemini-2.5-flash-lite''))) = u ''gemini-1.5-flash''"
  by (simp add: getGeminiModel_def Let_def)

end
